theory Spec2Isabelle
  imports Main
begin

section \<open>JavaScript values\<close>

text \<open>
  The wrapper class \<^verbatim>\<open>PixDB\<close> (src/pixdb.js) passes caller-supplied JavaScript values
  (keys, bounds, records) to the storage engine and tests some of them for truthiness.
  Values are a datatype. Numbers are integers here (no fractions, no NaN), dates are their
  timestamp, an object is the list of its own properties, and a key range is the
  \<^verbatim>\<open>IDBKeyRange\<close> object with its optional lower and upper bound (both closed, the only
  kind the wrapper builds).
\<close>

datatype jsval =
    Undefined
  | Null
  | Bool bool
  | Num int
  | Str string
  | Date int
  | Arr "jsval list"
  | Obj "(string \<times> jsval) list"
  | KeyRange "jsval option" "jsval option"

text \<open>JavaScript's \<^verbatim>\<open>ToBoolean\<close>, which \<^verbatim>\<open>&&\<close>, \<^verbatim>\<open>||\<close> and \<^verbatim>\<open>if\<close> apply.\<close>

fun truthy :: "jsval \<Rightarrow> bool" where
  "truthy Undefined = False"
| "truthy Null = False"
| "truthy (Bool b) = b"
| "truthy (Num n) = (n \<noteq> 0)"
| "truthy (Str s) = (s \<noteq> [])"
| "truthy (Date t) = True"
| "truthy (Arr xs) = True"
| "truthy (Obj fs) = True"
| "truthy (KeyRange lo hi) = True"

text \<open>An optional string argument (\<^verbatim>\<open>undefined\<close> or a string) under \<^verbatim>\<open>ToBoolean\<close>.\<close>

fun truthy_name :: "string option \<Rightarrow> bool" where
  "truthy_name None = False"
| "truthy_name (Some s) = (s \<noteq> [])"

text \<open>What a call can do: throw synchronously, or return a promise that is fulfilled,
  rejected, or never settled.\<close>

datatype dom_error =
    TypeError
  | DataError
  | ConstraintError
  | NotFoundError
  | InvalidStateError
  | AbortError
  | ReadOnlyError
  | VersionError
  | UnknownError

text \<open>
  A rejection value: an engine exception passed on as it is (\<open>Dom\<close>), the wrapper's
  \<^verbatim>\<open>new Error(e.target.error.message, { cause: e })\<close> around an engine error (\<open>Wrapped\<close>),
  the wrapper's \<^verbatim>\<open>new Error('No indexedDB support')\<close>, or a plain value such as \<^verbatim>\<open>false\<close>.
\<close>

datatype failure =
    Dom dom_error
  | Wrapped dom_error
  | NoSupport
  | Plain jsval

datatype 'a outcome =
    Throws dom_error
  | Resolved 'a
  | Rejected failure
  | Pending

section \<open>The storage engine: keys and key ranges\<close>

text \<open>
  Modelled from the spec: the storage engine (the browser's IndexedDB) is an external
  collaborator of the wrapper and not part of the repository. Its keys, key order, key
  ranges, object stores, indexes, requests and transactions are modelled here from the
  specification's data model (sections 3, 4 and 6) and, where that is silent, from the
  engine's published interface: a key is a number, a date, a string or an array of keys;
  numbers sort before dates, dates before strings, strings before arrays; arrays sort
  lexicographically. Binary keys are left out.
\<close>

fun valid_key :: "jsval \<Rightarrow> bool"
  and valid_keys :: "jsval list \<Rightarrow> bool" where
  "valid_key (Num n) = True"
| "valid_key (Date t) = True"
| "valid_key (Str s) = True"
| "valid_key (Arr xs) = valid_keys xs"
| "valid_key v = False"
| "valid_keys [] = True"
| "valid_keys (x # xs) = (valid_key x \<and> valid_keys xs)"

fun key_rank :: "jsval \<Rightarrow> nat" where
  "key_rank (Num n) = 0"
| "key_rank (Date t) = 1"
| "key_rank (Str s) = 2"
| "key_rank (Arr xs) = 3"
| "key_rank v = 4"

fun str_lt :: "string \<Rightarrow> string \<Rightarrow> bool" where
  "str_lt [] [] = False"
| "str_lt [] (y # ys) = True"
| "str_lt (x # xs) [] = False"
| "str_lt (x # xs) (y # ys) =
     ((of_char x :: nat) < of_char y \<or> (x = y \<and> str_lt xs ys))"

fun key_lt :: "jsval \<Rightarrow> jsval \<Rightarrow> bool"
  and keys_lt :: "jsval list \<Rightarrow> jsval list \<Rightarrow> bool" where
  "key_lt (Num a) (Num b) = (a < b)"
| "key_lt (Date a) (Date b) = (a < b)"
| "key_lt (Str a) (Str b) = str_lt a b"
| "key_lt (Arr xs) (Arr ys) = keys_lt xs ys"
| "key_lt a b = (key_rank a < key_rank b)"
| "keys_lt [] [] = False"
| "keys_lt [] (y # ys) = True"
| "keys_lt (x # xs) [] = False"
| "keys_lt (x # xs) (y # ys) = (key_lt x y \<or> (x = y \<and> keys_lt xs ys))"

definition key_le :: "jsval \<Rightarrow> jsval \<Rightarrow> bool" where
  "key_le a b = (\<not> key_lt b a)"

text \<open>
  Modelled from the spec: the engine's key-range constructors
  \<^verbatim>\<open>IDBKeyRange.bound(lower, upper)\<close>, \<^verbatim>\<open>IDBKeyRange.lowerBound(lower)\<close> and
  \<^verbatim>\<open>IDBKeyRange.upperBound(upper)\<close>, with both ends inclusive. Each throws a \<^verbatim>\<open>DataError\<close> for a value that is not
  a key, and \<^verbatim>\<open>bound\<close> also when the lower bound is above the upper one.
\<close>

definition IDBKeyRange_bound :: "jsval \<Rightarrow> jsval \<Rightarrow> dom_error + jsval" where
  "IDBKeyRange_bound lower upper =
     (if valid_key lower \<and> valid_key upper \<and> \<not> key_lt upper lower
      then Inr (KeyRange (Some lower) (Some upper))
      else Inl DataError)"

definition IDBKeyRange_lowerBound :: "jsval \<Rightarrow> dom_error + jsval" where
  "IDBKeyRange_lowerBound lower =
     (if valid_key lower then Inr (KeyRange (Some lower) None) else Inl DataError)"

definition IDBKeyRange_upperBound :: "jsval \<Rightarrow> dom_error + jsval" where
  "IDBKeyRange_upperBound upper =
     (if valid_key upper then Inr (KeyRange None (Some upper)) else Inl DataError)"

text \<open>Modelled from the spec: the engine's test of a key against a range. A key lies in
  a range when it is not below the lower and not above the upper bound.\<close>

fun in_range :: "jsval option \<times> jsval option \<Rightarrow> jsval \<Rightarrow> bool" where
  "in_range (lo, hi) k =
     ((case lo of None \<Rightarrow> True | Some l \<Rightarrow> key_le l k) \<and>
      (case hi of None \<Rightarrow> True | Some h \<Rightarrow> key_le k h))"

section \<open>The wrapper: key-range construction\<close>

text \<open>
  \<^verbatim>\<open>#bound(lowerBound, upperBound)\<close> (src/pixdb.js, lines 486 to 495): the variable
  \<^verbatim>\<open>bound\<close> stays \<^verbatim>\<open>undefined\<close> unless one of the three branches assigns it. The
  tests are JavaScript truthiness tests.
\<close>

definition bound :: "jsval \<Rightarrow> jsval \<Rightarrow> dom_error + jsval" where
  "bound lowerBound upperBound =
     (if truthy lowerBound \<and> truthy upperBound then IDBKeyRange_bound lowerBound upperBound
      else if truthy lowerBound then IDBKeyRange_lowerBound lowerBound
      else if truthy upperBound then IDBKeyRange_upperBound upperBound
      else Inr Undefined)"

section \<open>The storage engine: stores, indexes, requests and transactions\<close>

text \<open>
  Modelled from the spec: an object store of the engine, with in-line keys. A record is an
  object whose property at the store's key path is a key (specification, section 3: a
  record has exactly one designated key field, unique within its store). The rows are held
  in ascending key order. An index names a second key path; its entries are computed from
  the rows. Key generators, unique and multi-entry indexes and dotted key paths are left
  out.
\<close>

record objstore =
  keyPath :: string
  rows :: "(jsval \<times> jsval) list"
  indexes :: "(string \<times> string) list"

type_synonym database = "(string \<times> objstore) list"

definition extract_key :: "string \<Rightarrow> jsval \<Rightarrow> jsval option" where
  "extract_key kp v =
     (case v of
        Obj fs \<Rightarrow>
          (case map_of fs kp of
             Some k \<Rightarrow> if valid_key k then Some k else None
           | None \<Rightarrow> None)
      | _ \<Rightarrow> None)"

definition has_key :: "jsval \<Rightarrow> (jsval \<times> jsval) list \<Rightarrow> bool" where
  "has_key k rs = (k \<in> set (map fst rs))"

fun ins_row :: "jsval \<Rightarrow> jsval \<Rightarrow> (jsval \<times> jsval) list \<Rightarrow> (jsval \<times> jsval) list" where
  "ins_row k v [] = [(k, v)]"
| "ins_row k v (r # rs) =
     (if key_lt k (fst r) then (k, v) # r # rs else r # ins_row k v rs)"

definition del_key :: "jsval \<Rightarrow> (jsval \<times> jsval) list \<Rightarrow> (jsval \<times> jsval) list" where
  "del_key k rs = filter (\<lambda>r. fst r \<noteq> k) rs"

fun put_store :: "string \<Rightarrow> objstore \<Rightarrow> database \<Rightarrow> database" where
  "put_store nm st [] = [(nm, st)]"
| "put_store nm st (e # d) = (if fst e = nm then (nm, st) # d else e # put_store nm st d)"

text \<open>
  Modelled from the spec: the write requests of a read-write transaction.
  \<^verbatim>\<open>store.add(v)\<close> and \<^verbatim>\<open>store.put(v)\<close> throw a \<^verbatim>\<open>DataError\<close> at once when the value has
  no key at the key path; otherwise they place a request. When the engine performs an
  \<^verbatim>\<open>add\<close> request whose key is already in the store the request fails with a
  \<^verbatim>\<open>ConstraintError\<close>. A transaction with a failed request is aborted and every change it
  made is reverted (specification, section 4.2: all-or-nothing per transaction); otherwise
  it completes with all its changes.
\<close>

datatype wreq = AddReq jsval jsval | PutReq jsval jsval

definition store_add :: "objstore \<Rightarrow> jsval \<Rightarrow> dom_error + wreq" where
  "store_add st v =
     (case extract_key (keyPath st) v of None \<Rightarrow> Inl DataError | Some k \<Rightarrow> Inr (AddReq k v))"

definition store_put :: "objstore \<Rightarrow> jsval \<Rightarrow> dom_error + wreq" where
  "store_put st v =
     (case extract_key (keyPath st) v of None \<Rightarrow> Inl DataError | Some k \<Rightarrow> Inr (PutReq k v))"

fun perform :: "wreq \<Rightarrow> (jsval \<times> jsval) list \<Rightarrow> dom_error + (jsval \<times> jsval) list" where
  "perform (AddReq k v) rs = (if has_key k rs then Inl ConstraintError else Inr (ins_row k v rs))"
| "perform (PutReq k v) rs = Inr (ins_row k v (del_key k rs))"

fun run_requests :: "wreq list \<Rightarrow> (jsval \<times> jsval) list \<Rightarrow> dom_error + (jsval \<times> jsval) list" where
  "run_requests [] rs = Inr rs"
| "run_requests (r # reqs) rs =
     (case perform r rs of Inl e \<Rightarrow> Inl e | Inr rs' \<Rightarrow> run_requests reqs rs')"

datatype txn_event = TxnComplete | TxnError dom_error

definition finish_transaction ::
  "wreq list \<Rightarrow> (jsval \<times> jsval) list \<Rightarrow> txn_event \<times> (jsval \<times> jsval) list" where
  "finish_transaction reqs rs =
     (case run_requests reqs rs of
        Inl e \<Rightarrow> (TxnError e, rs)
      | Inr rs' \<Rightarrow> (TxnComplete, rs'))"

text \<open>
  Modelled from the spec: what a query reads. A source is the store itself or one of its
  indexes; an entry is a key of the source, the primary key and the record. The entries of
  an index are the records that have a key at the index's key path, in ascending order of
  that key and then of the primary key.
\<close>

datatype source = StoreSrc | IndexSrc string

type_synonym entry = "jsval \<times> jsval \<times> jsval"

definition entry_lt :: "entry \<Rightarrow> entry \<Rightarrow> bool" where
  "entry_lt a b =
     (key_lt (fst a) (fst b) \<or> (fst a = fst b \<and> key_lt (fst (snd a)) (fst (snd b))))"

fun ins_entry :: "entry \<Rightarrow> entry list \<Rightarrow> entry list" where
  "ins_entry a [] = [a]"
| "ins_entry a (b # bs) = (if entry_lt a b then a # b # bs else b # ins_entry a bs)"

definition index_entries :: "string \<Rightarrow> (jsval \<times> jsval) list \<Rightarrow> entry list" where
  "index_entries kp rs =
     foldr ins_entry
       (concat (map (\<lambda>r. case extract_key kp (snd r) of
                            None \<Rightarrow> []
                          | Some ik \<Rightarrow> [(ik, fst r, snd r)]) rs)) []"

definition entries :: "objstore \<Rightarrow> source \<Rightarrow> entry list" where
  "entries st src =
     (case src of
        StoreSrc \<Rightarrow> map (\<lambda>r. (fst r, fst r, snd r)) (rows st)
      | IndexSrc nm \<Rightarrow>
          (case map_of (indexes st) nm of
             None \<Rightarrow> []
           | Some kp \<Rightarrow> index_entries kp (rows st)))"

text \<open>
  Modelled from the spec: how the engine reads a query argument and selects entries. A query
  argument is a key range or a single key; where the argument is optional,
  \<^verbatim>\<open>undefined\<close> and \<^verbatim>\<open>null\<close> stand for every key. Anything else is a \<^verbatim>\<open>DataError\<close>.
\<close>

definition as_range :: "jsval \<Rightarrow> dom_error + (jsval option \<times> jsval option)" where
  "as_range v =
     (case v of
        KeyRange lo hi \<Rightarrow> Inr (lo, hi)
      | _ \<Rightarrow> if valid_key v then Inr (Some v, Some v) else Inl DataError)"

definition opt_range :: "jsval \<Rightarrow> dom_error + (jsval option \<times> jsval option)" where
  "opt_range v = (if v = Undefined \<or> v = Null then Inr (None, None) else as_range v)"

definition select :: "jsval option \<times> jsval option \<Rightarrow> entry list \<Rightarrow> entry list" where
  "select r es = filter (\<lambda>e. in_range r (fst e)) es"

text \<open>
  Modelled from the spec: the largest value of the engine's unsigned long arguments (the
  maximum count of \<^verbatim>\<open>getAll\<close> and \<^verbatim>\<open>getAllKeys\<close>, the count of \<^verbatim>\<open>cursor.advance\<close>).
  They are range-enforced: a number outside the range is a \<^verbatim>\<open>TypeError\<close>.
\<close>

definition unsigned_long_max :: int where
  "unsigned_long_max = 4294967295"

text \<open>
  Modelled from the spec: the engine's optional maximum count of \<^verbatim>\<open>getAll\<close> and
  \<^verbatim>\<open>getAllKeys\<close> (an unsigned long with range enforcement). Absent or zero is no limit
  and a negative number or one above 4294967295 is a \<^verbatim>\<open>TypeError\<close>; \<^verbatim>\<open>null\<close> and \<^verbatim>\<open>false\<close> convert to 0 and
  \<^verbatim>\<open>true\<close> to 1. The wrapper passes a number or \<^verbatim>\<open>undefined\<close>; the conversions of
  strings, dates and objects to numbers are left out and stand as a \<^verbatim>\<open>TypeError\<close>.
\<close>

definition max_count :: "jsval \<Rightarrow> dom_error + nat option" where
  "max_count v =
     (case v of
        Undefined \<Rightarrow> Inr None
      | Null \<Rightarrow> Inr None
      | Bool b \<Rightarrow> if b then Inr (Some 1) else Inr None
      | Num n \<Rightarrow>
          if n < 0 then Inl TypeError
          else if unsigned_long_max < n then Inl TypeError
          else if n = 0 then Inr None
          else Inr (Some (nat n))
      | _ \<Rightarrow> Inl TypeError)"

definition limit :: "nat option \<Rightarrow> 'a list \<Rightarrow> 'a list" where
  "limit m xs = (case m of None \<Rightarrow> xs | Some n \<Rightarrow> take n xs)"

text \<open>A missing JavaScript argument reads as \<^verbatim>\<open>undefined\<close>.\<close>

fun arg :: "jsval list \<Rightarrow> nat \<Rightarrow> jsval" where
  "arg [] i = Undefined"
| "arg (x # xs) 0 = x"
| "arg (x # xs) (Suc i) = arg xs i"

text \<open>
  Modelled from the spec: the methods of a store or index that the wrapper calls by name,
  \<^verbatim>\<open>source[method](...args)\<close>. A call throws (\<open>Inl\<close>) or places a request; the request's
  event and the rows of the store afterwards are returned. An index has no \<^verbatim>\<open>delete\<close> or
  \<^verbatim>\<open>clear\<close> method, so calling it is a \<^verbatim>\<open>TypeError\<close>; \<^verbatim>\<open>get\<close> and \<^verbatim>\<open>delete\<close> require
  their argument; \<^verbatim>\<open>delete\<close> and \<^verbatim>\<open>clear\<close> need a read-write transaction. A request
  that was placed succeeds: failures of the storage medium are not part of this model,
  though the wrapper's handler for them is (\<open>exec_settle\<close> below).
\<close>

datatype store_method = MCount | MGet | MGetAll | MGetAllKeys | MDelete | MClear

datatype req_event = ReqSuccess jsval | ReqError "dom_error option"

definition engine_call ::
  "objstore \<Rightarrow> source \<Rightarrow> bool \<Rightarrow> store_method \<Rightarrow> jsval list \<Rightarrow>
     dom_error + (req_event \<times> (jsval \<times> jsval) list)" where
  "engine_call st src write m args =
     (case m of
        MCount \<Rightarrow>
          (case opt_range (arg args 0) of
             Inl e \<Rightarrow> Inl e
           | Inr r \<Rightarrow> Inr (ReqSuccess (Num (int (length (select r (entries st src))))), rows st))
      | MGet \<Rightarrow>
          if args = [] then Inl TypeError
          else (case as_range (arg args 0) of
             Inl e \<Rightarrow> Inl e
           | Inr r \<Rightarrow>
               Inr (ReqSuccess (case select r (entries st src) of
                                  [] \<Rightarrow> Undefined
                                | e # es \<Rightarrow> snd (snd e)), rows st))
      | MGetAll \<Rightarrow>
          (case opt_range (arg args 0) of
             Inl e \<Rightarrow> Inl e
           | Inr r \<Rightarrow>
               (case max_count (arg args 1) of
                  Inl e \<Rightarrow> Inl e
                | Inr n \<Rightarrow>
                    Inr (ReqSuccess (Arr (map (\<lambda>e. snd (snd e))
                           (limit n (select r (entries st src))))), rows st)))
      | MGetAllKeys \<Rightarrow>
          (case opt_range (arg args 0) of
             Inl e \<Rightarrow> Inl e
           | Inr r \<Rightarrow>
               (case max_count (arg args 1) of
                  Inl e \<Rightarrow> Inl e
                | Inr n \<Rightarrow>
                    Inr (ReqSuccess (Arr (map (\<lambda>e. fst (snd e))
                           (limit n (select r (entries st src))))), rows st)))
      | MDelete \<Rightarrow>
          (case src of
             IndexSrc nm \<Rightarrow> Inl TypeError
           | StoreSrc \<Rightarrow>
               if args = [] then Inl TypeError
               else if write then
                 (case as_range (arg args 0) of
                    Inl e \<Rightarrow> Inl e
                  | Inr r \<Rightarrow>
                      Inr (ReqSuccess Undefined,
                           filter (\<lambda>row. \<not> in_range r (fst row)) (rows st)))
               else Inl ReadOnlyError)
      | MClear \<Rightarrow>
          (case src of
             IndexSrc nm \<Rightarrow> Inl TypeError
           | StoreSrc \<Rightarrow> if write then Inr (ReqSuccess Undefined, []) else Inl ReadOnlyError))"

section \<open>The wrapper: state and connection lifecycle\<close>

text \<open>
  The private fields \<^verbatim>\<open>#db\<close>, \<^verbatim>\<open>#dbName\<close> and \<^verbatim>\<open>#dbVersion\<close> (lines 7 to 9). The
  connection handle carries the content of the connected database; \<open>None\<close> is \<^verbatim>\<open>null\<close>.
\<close>

record pixdb =
  db :: "database option"
  dbName :: jsval
  dbVersion :: jsval

definition isConnected :: "pixdb \<Rightarrow> bool" where
  "isConnected p = (db p \<noteq> None)"

definition name :: "pixdb \<Rightarrow> jsval" where
  "name p = dbName p"

definition version :: "pixdb \<Rightarrow> jsval" where
  "version p = dbVersion p"

text \<open>
  \<^verbatim>\<open>close()\<close> (lines 47 to 50) calls \<^verbatim>\<open>this.#db.close()\<close>: reading a property of
  \<^verbatim>\<open>null\<close> throws a \<^verbatim>\<open>TypeError\<close>. The engine's own \<^verbatim>\<open>close\<close> never throws.
\<close>

definition close :: "pixdb \<Rightarrow> dom_error + pixdb" where
  "close p = (case db p of None \<Rightarrow> Inl TypeError | Some d \<Rightarrow> Inr (p\<lparr>db := None\<rparr>))"

text \<open>
  \<^verbatim>\<open>#dbConnect\<close> (lines 59 to 95). What the engine answers to \<^verbatim>\<open>indexedDB.open\<close> is an
  input: the call throws, or the request later fires \<^verbatim>\<open>success\<close> with the database or
  \<^verbatim>\<open>error\<close>. An exception thrown inside the executor of \<^verbatim>\<open>new Promise\<close> rejects the
  promise. The upgrade routine runs inside the engine before \<^verbatim>\<open>success\<close>; its effect is
  part of the database the event delivers.
\<close>

datatype open_event = OpenThrows dom_error | OpenSuccess database | OpenError dom_error

definition dbConnect :: "pixdb \<Rightarrow> bool \<Rightarrow> open_event \<Rightarrow> unit outcome \<times> pixdb" where
  "dbConnect p has_indexedDB ev =
     (if \<not> has_indexedDB then (Rejected NoSupport, p)
      else (case ev of
              OpenThrows e \<Rightarrow> (Rejected (Dom e), p)
            | OpenSuccess d \<Rightarrow> (Resolved (), p\<lparr>db := Some d\<rparr>)
            | OpenError e \<Rightarrow> (Rejected (Wrapped e), p)))"

text \<open>The constructor (lines 25 to 32): \<^verbatim>\<open>dbName || 'db'\<close> and \<^verbatim>\<open>dbVersion || 1\<close>.\<close>

definition new_PixDB :: "jsval \<Rightarrow> jsval \<Rightarrow> bool \<Rightarrow> open_event \<Rightarrow> unit outcome \<times> pixdb" where
  "new_PixDB nm ver has_indexedDB ev =
     dbConnect \<lparr>db = None,
                dbName = (if truthy nm then nm else Str ''db''),
                dbVersion = (if truthy ver then ver else Num 1)\<rparr> has_indexedDB ev"

text \<open>\<^verbatim>\<open>connect()\<close> (lines 39 to 41): \<^verbatim>\<open>.then(() => true).catch(() => false)\<close>.\<close>

definition then_true_catch_false :: "'a outcome \<Rightarrow> jsval outcome" where
  "then_true_catch_false r =
     (case r of
        Throws e \<Rightarrow> Throws e
      | Resolved x \<Rightarrow> Resolved (Bool True)
      | Rejected f \<Rightarrow> Resolved (Bool False)
      | Pending \<Rightarrow> Pending)"

definition connect :: "pixdb \<Rightarrow> bool \<Rightarrow> open_event \<Rightarrow> jsval outcome \<times> pixdb" where
  "connect p has_indexedDB ev =
     (let (r, p') = dbConnect p has_indexedDB ev in (then_true_catch_false r, p'))"

text \<open>
  \<^verbatim>\<open>drop()\<close> (lines 432 to 448). \<^verbatim>\<open>this.close()\<close> runs inside the promise's executor, so
  its exception rejects the promise and \<^verbatim>\<open>indexedDB.deleteDatabase\<close> is never reached.
  The engine's answer to the deletion request is an input. The third component is the
  name handed to \<^verbatim>\<open>deleteDatabase\<close>, if the call was made.
\<close>

datatype delete_event = DeleteSuccess | DeleteError

definition drop_db :: "pixdb \<Rightarrow> delete_event \<Rightarrow> jsval outcome \<times> pixdb \<times> jsval option" where
  "drop_db p ev =
     (case close p of
        Inl e \<Rightarrow> (Rejected (Dom e), p, None)
      | Inr p' \<Rightarrow>
          (case ev of
             DeleteSuccess \<Rightarrow>
               (Resolved (Bool True), p'\<lparr>dbName := Null, dbVersion := Null\<rparr>, Some (dbName p'))
           | DeleteError \<Rightarrow> (Rejected (Plain (Bool False)), p', Some (dbName p'))))"

section \<open>The wrapper: transactions and sources\<close>

text \<open>
  \<^verbatim>\<open>#query(storeName, indexName, write)\<close> (lines 461 to 476). \<^verbatim>\<open>this.#db.transaction\<close>
  on a \<^verbatim>\<open>null\<close> handle is a \<^verbatim>\<open>TypeError\<close>; the engine throws a \<^verbatim>\<open>NotFoundError\<close> for
  a store or index that does not exist. The result holds the transaction (its mode and
  the database it works on), the store, and the source
  \<^verbatim>\<open>indexName && !write ? store.index(indexName) : store\<close>.
\<close>

record query_result =
  q_db :: database
  q_write :: bool
  q_store :: objstore
  q_source :: source

definition store_index :: "objstore \<Rightarrow> string \<Rightarrow> dom_error + source" where
  "store_index st nm =
     (case map_of (indexes st) nm of None \<Rightarrow> Inl NotFoundError | Some kp \<Rightarrow> Inr (IndexSrc nm))"

definition query :: "pixdb \<Rightarrow> string \<Rightarrow> string option \<Rightarrow> bool \<Rightarrow> dom_error + query_result" where
  "query p storeName indexName write =
     (case db p of
        None \<Rightarrow> Inl TypeError
      | Some d \<Rightarrow>
          (case map_of d storeName of
             None \<Rightarrow> Inl NotFoundError
           | Some st \<Rightarrow>
               (case (if truthy_name indexName \<and> \<not> write
                      then (case indexName of Some nm \<Rightarrow> store_index st nm | None \<Rightarrow> Inr StoreSrc)
                      else Inr StoreSrc) of
                  Inl e \<Rightarrow> Inl e
                | Inr src \<Rightarrow>
                    Inr \<lparr>q_db = d, q_write = write, q_store = st, q_source = src\<rparr>)))"

definition commit_rows :: "pixdb \<Rightarrow> string \<Rightarrow> query_result \<Rightarrow> (jsval \<times> jsval) list \<Rightarrow> pixdb" where
  "commit_rows p storeName q rs =
     p\<lparr>db := Some (put_store storeName ((q_store q)\<lparr>rows := rs\<rparr>) (q_db q))\<rparr>"

section \<open>The wrapper: record mutation\<close>

text \<open>
  \<^verbatim>\<open>#update(storeName, record, overwrite)\<close> (lines 133 to 160). \<open>write_all\<close> is the
  \<^verbatim>\<open>forEach\<close> loop: it places one request per value and stops at the first call that
  throws. The exception leaves the executor and rejects the promise; \<^verbatim>\<open>commit()\<close> is
  then not reached, and the engine finishes the transaction with the requests placed so
  far. Without an exception the transaction's \<^verbatim>\<open>complete\<close> event resolves the promise
  with \<^verbatim>\<open>undefined\<close>, and its \<^verbatim>\<open>error\<close> event rejects it with a new \<^verbatim>\<open>Error\<close> that
  carries the engine error's message.
\<close>

fun write_all :: "objstore \<Rightarrow> bool \<Rightarrow> jsval list \<Rightarrow> wreq list \<times> dom_error option" where
  "write_all st overwrite [] = ([], None)"
| "write_all st overwrite (v # vs) =
     (case (if overwrite then store_put st v else store_add st v) of
        Inl e \<Rightarrow> ([], Some e)
      | Inr r \<Rightarrow> (let (rs, e) = write_all st overwrite vs in (r # rs, e)))"

definition update :: "pixdb \<Rightarrow> string \<Rightarrow> jsval \<Rightarrow> bool \<Rightarrow> jsval outcome \<times> pixdb" where
  "update p storeName record overwrite =
     (case query p storeName None True of
        Inl e \<Rightarrow> (Rejected (Dom e), p)
      | Inr q \<Rightarrow>
          (let records = (case record of Arr vs \<Rightarrow> vs | _ \<Rightarrow> [record]);
               (reqs, thrown) = write_all (q_store q) overwrite records;
               (ev, rs) = finish_transaction reqs (rows (q_store q));
               p' = commit_rows p storeName q rs
           in case thrown of
                Some e \<Rightarrow> (Rejected (Dom e), p')
              | None \<Rightarrow>
                  (case ev of
                     TxnComplete \<Rightarrow> (Resolved Undefined, p')
                   | TxnError e \<Rightarrow> (Rejected (Wrapped e), p'))))"

text \<open>\<^verbatim>\<open>add\<close> and \<^verbatim>\<open>put\<close> (lines 176 to 196): the parameter default \<^verbatim>\<open>item = []\<close>
  replaces \<^verbatim>\<open>undefined\<close> only.\<close>

definition add :: "pixdb \<Rightarrow> string \<Rightarrow> jsval \<Rightarrow> jsval outcome \<times> pixdb" where
  "add p store item = update p store (if item = Undefined then Arr [] else item) False"

definition put :: "pixdb \<Rightarrow> string \<Rightarrow> jsval \<Rightarrow> jsval outcome \<times> pixdb" where
  "put p store item = update p store (if item = Undefined then Arr [] else item) True"

section \<open>The wrapper: generic execute and the operations built on it\<close>

text \<open>
  \<^verbatim>\<open>#exec(storeName, indexName, method, args)\<close> (lines 208 to 223):
  \<^verbatim>\<open>args = Array.isArray(args) ? args : [ args ]\<close>, the transaction is read-write for
  \<^verbatim>\<open>delete\<close> and \<^verbatim>\<open>clear\<close> only, and the request's events settle the promise:
  \<^verbatim>\<open>resolve(request.result)\<close> and \<^verbatim>\<open>reject(request.error ?? false)\<close>.
\<close>

definition exec_settle :: "req_event \<Rightarrow> jsval outcome" where
  "exec_settle ev =
     (case ev of
        ReqSuccess r \<Rightarrow> Resolved r
      | ReqError (Some e) \<Rightarrow> Rejected (Dom e)
      | ReqError None \<Rightarrow> Rejected (Plain (Bool False)))"

definition exec ::
  "pixdb \<Rightarrow> string \<Rightarrow> string option \<Rightarrow> store_method \<Rightarrow> jsval \<Rightarrow> jsval outcome \<times> pixdb" where
  "exec p storeName indexName m args =
     (let args' = (case args of Arr xs \<Rightarrow> xs | _ \<Rightarrow> [args]);
          write = (m = MDelete \<or> m = MClear)
      in case query p storeName indexName write of
           Inl e \<Rightarrow> (Rejected (Dom e), p)
         | Inr q \<Rightarrow>
             (case engine_call (q_store q) (q_source q) (q_write q) m args' of
                Inl e \<Rightarrow> (Rejected (Dom e), p)
              | Inr (ev, rs) \<Rightarrow> (exec_settle ev, commit_rows p storeName q rs)))"

text \<open>
  The public operations (lines 239 to 381). The argument expressions, \<^verbatim>\<open>#bound\<close> among
  them, are evaluated before \<^verbatim>\<open>#exec\<close> creates its promise, so an exception of
  \<^verbatim>\<open>#bound\<close> is thrown by the operation itself. The maximum count is a number or absent.
\<close>

definition count_arg :: "int option \<Rightarrow> jsval" where
  "count_arg c = (case c of None \<Rightarrow> Undefined | Some n \<Rightarrow> Num n)"

definition count ::
  "pixdb \<Rightarrow> string \<Rightarrow> string option \<Rightarrow> jsval \<Rightarrow> jsval \<Rightarrow> jsval outcome \<times> pixdb" where
  "count p store index lowerBound upperBound =
     (case bound lowerBound upperBound of
        Inl e \<Rightarrow> (Throws e, p)
      | Inr b \<Rightarrow> exec p store index MCount b)"

definition get :: "pixdb \<Rightarrow> string \<Rightarrow> string option \<Rightarrow> jsval \<Rightarrow> jsval outcome \<times> pixdb" where
  "get p store index key = exec p store index MGet key"

definition getAll ::
  "pixdb \<Rightarrow> string \<Rightarrow> string option \<Rightarrow> jsval \<Rightarrow> jsval \<Rightarrow> int option \<Rightarrow> jsval outcome \<times> pixdb" where
  "getAll p store index lowerBound upperBound cnt =
     (case bound lowerBound upperBound of
        Inl e \<Rightarrow> (Throws e, p)
      | Inr b \<Rightarrow> exec p store index MGetAll (Arr [b, count_arg cnt]))"

definition getAllKeys ::
  "pixdb \<Rightarrow> string \<Rightarrow> string option \<Rightarrow> jsval \<Rightarrow> jsval \<Rightarrow> int option \<Rightarrow> jsval outcome \<times> pixdb" where
  "getAllKeys p store index lowerBound upperBound cnt =
     (case bound lowerBound upperBound of
        Inl e \<Rightarrow> (Throws e, p)
      | Inr b \<Rightarrow> exec p store index MGetAllKeys (Arr [b, count_arg cnt]))"

definition delete :: "pixdb \<Rightarrow> string \<Rightarrow> jsval \<Rightarrow> jsval outcome \<times> pixdb" where
  "delete p store key = exec p store None MDelete (Arr [key])"

definition deleteAll ::
  "pixdb \<Rightarrow> string \<Rightarrow> string option \<Rightarrow> jsval \<Rightarrow> jsval \<Rightarrow> jsval outcome \<times> pixdb" where
  "deleteAll p store index lowerBound upperBound =
     (case bound lowerBound upperBound of
        Inl e \<Rightarrow> (Throws e, p)
      | Inr b \<Rightarrow> exec p store index MDelete (Arr [b]))"

definition clear :: "pixdb \<Rightarrow> string \<Rightarrow> jsval outcome \<times> pixdb" where
  "clear p store = exec p store None MClear Undefined"

section \<open>The wrapper: cursor traversal\<close>

text \<open>
  Modelled from the spec: \<^verbatim>\<open>openCursor(range, direction)\<close> of a store or index. The
  direction is one of four strings (anything else is a \<^verbatim>\<open>TypeError\<close>); the cursor
  visits the entries in range in ascending or descending order, and the unique
  directions visit one entry per key. \<^verbatim>\<open>cursor.advance(n)\<close> takes a range-enforced
  unsigned long: it moves \<open>n\<close> entries on, and throws a \<^verbatim>\<open>TypeError\<close> unless \<open>n\<close> is
  positive and at most 4294967295.
\<close>

datatype direction = Next | NextUnique | Prev | PrevUnique

definition parse_direction :: "string \<Rightarrow> direction option" where
  "parse_direction s =
     (if s = ''next'' then Some Next
      else if s = ''nextunique'' then Some NextUnique
      else if s = ''prev'' then Some Prev
      else if s = ''prevunique'' then Some PrevUnique
      else None)"

fun unique_keys :: "entry list \<Rightarrow> entry list" where
  "unique_keys [] = []"
| "unique_keys [a] = [a]"
| "unique_keys (a # b # es) =
     (if fst a = fst b then unique_keys (a # es) else a # unique_keys (b # es))"

definition openCursor :: "objstore \<Rightarrow> source \<Rightarrow> jsval \<Rightarrow> string \<Rightarrow> dom_error + entry list" where
  "openCursor st src rng dir =
     (case parse_direction dir of
        None \<Rightarrow> Inl TypeError
      | Some d \<Rightarrow>
          (case opt_range rng of
             Inl e \<Rightarrow> Inl e
           | Inr r \<Rightarrow>
               Inr (let es = select r (entries st src)
                    in case d of
                         Next \<Rightarrow> es
                       | NextUnique \<Rightarrow> unique_keys es
                       | Prev \<Rightarrow> rev es
                       | PrevUnique \<Rightarrow> rev (unique_keys es))))"

definition advance :: "int \<Rightarrow> dom_error + nat" where
  "advance n = (if 0 < n \<and> n \<le> unsigned_long_max then Inr (nat n) else Inl TypeError)"

text \<open>
  \<^verbatim>\<open>getCursor\<close> (lines 400 to 425). The callback is absent or a function from the cursor
  (its key, primary key and value) to what it returns: nothing (\<open>None\<close>) or a number.
  \<open>cursor_onsuccess\<close> is the request's \<^verbatim>\<open>onsuccess\<close> handler with \<^verbatim>\<open>request.result\<close>
  as its argument: \<^verbatim>\<open>cursor.advance((callback && callback(cursor)) || 1)\<close> for a
  cursor, \<^verbatim>\<open>resolve(true)\<close> for \<^verbatim>\<open>null\<close>. \<open>cursor_onerror\<close> is the \<^verbatim>\<open>onerror\<close>
  handler, \<^verbatim>\<open>reject(request.error)\<close>.
\<close>

datatype cursor_action = Advance int | ResolveTrue

definition cursor_onsuccess :: "(entry \<Rightarrow> int option) option \<Rightarrow> entry option \<Rightarrow> cursor_action" where
  "cursor_onsuccess callback cursor =
     (case cursor of
        Some c \<Rightarrow>
          Advance (case (case callback of None \<Rightarrow> None | Some f \<Rightarrow> f c) of
                     None \<Rightarrow> 1
                   | Some n \<Rightarrow> if n \<noteq> 0 then n else 1)
      | None \<Rightarrow> ResolveTrue)"

definition cursor_onerror :: "dom_error \<Rightarrow> jsval outcome" where
  "cursor_onerror e = Rejected (Dom e)"

definition callback_calls :: "(entry \<Rightarrow> int option) option \<Rightarrow> entry option \<Rightarrow> entry list" where
  "callback_calls callback cursor =
     (case cursor of
        Some c \<Rightarrow> (case callback of None \<Rightarrow> [] | Some f \<Rightarrow> [c])
      | None \<Rightarrow> [])"

text \<open>
  The engine drives the handlers: at each step it fires \<^verbatim>\<open>error\<close> when the step fails
  (\<open>faults step\<close> names the error) and otherwise \<^verbatim>\<open>success\<close> with the cursor at its
  current entry, or with \<^verbatim>\<open>null\<close> when no entry is left. An exception of \<^verbatim>\<open>advance\<close>
  leaves the event handler: no further event reaches the wrapper and the promise is never
  settled. The second component lists the cursors handed to the callback, in order.
\<close>

function cursor_loop ::
  "(entry \<Rightarrow> int option) option \<Rightarrow> (nat \<Rightarrow> dom_error option) \<Rightarrow> nat \<Rightarrow> entry list \<Rightarrow>
     entry list \<Rightarrow> jsval outcome \<times> entry list" where
  "cursor_loop callback faults step es seen =
     (case faults step of
        Some e \<Rightarrow> (cursor_onerror e, seen)
      | None \<Rightarrow>
          (case cursor_onsuccess callback (case es of [] \<Rightarrow> None | c # cs \<Rightarrow> Some c) of
             ResolveTrue \<Rightarrow> (Resolved (Bool True), seen)
           | Advance n \<Rightarrow>
               (case advance n of
                  Inl e \<Rightarrow>
                    (Pending, seen @ callback_calls callback (case es of [] \<Rightarrow> None | c # cs \<Rightarrow> Some c))
                | Inr k \<Rightarrow>
                    cursor_loop callback faults (Suc step) (drop k es)
                      (seen @ callback_calls callback (case es of [] \<Rightarrow> None | c # cs \<Rightarrow> Some c)))))"
  by pat_completeness auto
termination
proof (relation "measure (\<lambda>(callback, faults, step, es, seen). length es)")
  show "wf (measure (\<lambda>(callback, faults, step, es, seen). length es))"
    by simp
next
  fix callback :: "(entry \<Rightarrow> int option) option"
    and faults :: "nat \<Rightarrow> dom_error option"
    and step :: nat and es seen :: "entry list" and n :: int and k :: nat
  assume a: "cursor_onsuccess callback (case es of [] \<Rightarrow> None | c # cs \<Rightarrow> Some c) = Advance n"
    and b: "advance n = Inr k"
  from a have "es \<noteq> []"
    by (auto simp: cursor_onsuccess_def split: list.splits)
  moreover from b have "0 < k"
    by (auto simp: advance_def split: if_splits)
  ultimately show "((callback, faults, Suc step, drop k es,
      seen @ callback_calls callback (case es of [] \<Rightarrow> None | c # cs \<Rightarrow> Some c)),
      (callback, faults, step, es, seen))
    \<in> measure (\<lambda>(callback, faults, step, es, seen). length es)"
    by (cases es) auto
qed

declare cursor_loop.simps [simp del]

definition getCursor ::
  "pixdb \<Rightarrow> string \<Rightarrow> string option \<Rightarrow> jsval \<Rightarrow> jsval \<Rightarrow> string option \<Rightarrow>
     (entry \<Rightarrow> int option) option \<Rightarrow> (nat \<Rightarrow> dom_error option) \<Rightarrow> jsval outcome \<times> entry list" where
  "getCursor p store index lowerBound upperBound direction callback faults =
     (case query p store index False of
        Inl e \<Rightarrow> (Rejected (Dom e), [])
      | Inr q \<Rightarrow>
          (case bound lowerBound upperBound of
             Inl e \<Rightarrow> (Rejected (Dom e), [])
           | Inr b \<Rightarrow>
               (case openCursor (q_store q) (q_source q) b
                       (case direction of None \<Rightarrow> ''next'' | Some d \<Rightarrow> d) of
                  Inl e \<Rightarrow> (Rejected (Dom e), [])
                | Inr es \<Rightarrow> cursor_loop callback faults 0 es [])))"

section \<open>Comparing outcomes\<close>

definition is_throw :: "'a outcome \<Rightarrow> bool" where
  "is_throw r = (case r of Throws e \<Rightarrow> True | _ \<Rightarrow> False)"

definition map_outcome :: "('a \<Rightarrow> 'b) \<Rightarrow> 'a outcome \<Rightarrow> 'b outcome" where
  "map_outcome f r =
     (case r of
        Throws e \<Rightarrow> Throws e
      | Resolved x \<Rightarrow> Resolved (f x)
      | Rejected x \<Rightarrow> Rejected x
      | Pending \<Rightarrow> Pending)"

text \<open>The \<^verbatim>\<open>length\<close> property of an array (\<^verbatim>\<open>undefined\<close> on the other values here).\<close>

definition array_length :: "jsval \<Rightarrow> jsval" where
  "array_length v = (case v of Arr xs \<Rightarrow> Num (int (length xs)) | _ \<Rightarrow> Undefined)"

text \<open>The reopen handshake succeeds when the environment has the engine and the open
  request fires \<^verbatim>\<open>success\<close>.\<close>

definition handshake_ok :: "bool \<Rightarrow> open_event \<Rightarrow> bool" where
  "handshake_ok has_indexedDB ev =
     (has_indexedDB \<and> (case ev of OpenSuccess d \<Rightarrow> True | _ \<Rightarrow> False))"

section \<open>Example databases\<close>

text \<open>
  The store of the repository's test page and README: \<^verbatim>\<open>state\<close>, keyed by \<^verbatim>\<open>name\<close>,
  with an index on \<^verbatim>\<open>expire\<close>. Then a store with numeric keys, and a store with two
  indexes on one key path, one of them with the empty string as its name (the engine allows
  any string as a name).
\<close>

definition rec_a :: jsval where
  "rec_a = Obj [(''name'', Str ''a''), (''value'', Num 1), (''expire'', Date 7)]"

definition rec_b :: jsval where
  "rec_b = Obj [(''name'', Str ''b''), (''value'', Num 2), (''expire'', Date 6)]"

definition rec_c :: jsval where
  "rec_c = Obj [(''name'', Str ''c''), (''value'', Num 3), (''expire'', Date 5)]"

definition state_store :: objstore where
  "state_store =
     \<lparr>keyPath = ''name'',
      rows = [(Str ''a'', rec_a), (Str ''b'', rec_b)],
      indexes = [(''expireIdx'', ''expire'')]\<rparr>"

definition test_handle :: pixdb where
  "test_handle = \<lparr>db = Some [(''state'', state_store)], dbName = Str ''test'', dbVersion = Num 1\<rparr>"

definition closed_handle :: pixdb where
  "closed_handle = \<lparr>db = None, dbName = Str ''test'', dbVersion = Num 1\<rparr>"

definition num_store :: objstore where
  "num_store =
     \<lparr>keyPath = ''id'',
      rows = [(Num (- 1), Obj [(''id'', Num (- 1))]), (Num 3, Obj [(''id'', Num 3)])],
      indexes = []\<rparr>"

definition num_handle :: pixdb where
  "num_handle = \<lparr>db = Some [(''numbers'', num_store)], dbName = Str ''db'', dbVersion = Num 1\<rparr>"

definition tag_record :: jsval where
  "tag_record = Obj [(''id'', Num 1), (''tag'', Num 5)]"

definition tag_store :: objstore where
  "tag_store =
     \<lparr>keyPath = ''id'',
      rows = [(Num 1, tag_record)],
      indexes = [([], ''tag''), (''byTag'', ''tag'')]\<rparr>"

definition tag_handle :: pixdb where
  "tag_handle = \<lparr>db = Some [(''items'', tag_store)], dbName = Str ''db'', dbVersion = Num 1\<rparr>"

text \<open>
  The run of the repository's test page: six records are put, one is added, \<^verbatim>\<open>a\<close> is
  deleted, \<^verbatim>\<open>a\<close> to \<^verbatim>\<open>c\<close> are deleted and added back. The update time is the date 100
  and the expiry is that many days later.
\<close>

definition page_record :: "string \<Rightarrow> int \<Rightarrow> int \<Rightarrow> jsval" where
  "page_record n v e =
     Obj [(''name'', Str n), (''value'', Num v), (''update'', Date 100), (''expire'', Date (100 + e))]"

definition page_h0 :: pixdb where
  "page_h0 =
     \<lparr>db = Some [(''state'',
                  \<lparr>keyPath = ''name'', rows = [],
                   indexes = [(''updateIdx'', ''update''), (''expireIdx'', ''expire'')]\<rparr>)],
      dbName = Str ''test'', dbVersion = Num 1\<rparr>"

definition page_h1 :: pixdb where
  "page_h1 =
     snd (put page_h0 ''state''
            (Arr [page_record ''a'' 1 7, page_record ''b'' 2 6, page_record ''c'' 3 5,
                  page_record ''d'' 4 4, page_record ''e'' 5 3, page_record ''f'' 6 2]))"

definition page_h2 :: pixdb where
  "page_h2 = snd (add page_h1 ''state'' (page_record ''g'' 7 1))"

definition page_h3 :: pixdb where
  "page_h3 = snd (delete page_h2 ''state'' (Str ''a''))"

definition page_h4 :: pixdb where
  "page_h4 = snd (deleteAll page_h3 ''state'' None (Str ''a'') (Str ''c''))"

definition page_h5 :: pixdb where
  "page_h5 =
     snd (add page_h4 ''state''
            (Arr [page_record ''a'' 1 7, page_record ''b'' 2 6, page_record ''c'' 3 5]))"

section \<open>Facts about the stores and the transaction helper\<close>

lemma put_store_same: "map_of d nm = Some st \<Longrightarrow> put_store nm st d = d"
  by (induction d) (auto split: if_splits)

lemma commit_rows_same:
  assumes "db p = Some d" and "map_of d s = Some st" and "q_db q = d" and "q_store q = st"
  shows "commit_rows p s q (rows st) = p"
  using assms by (simp add: commit_rows_def put_store_same)

lemma query_store:
  assumes "db p = Some d" and "map_of d s = Some st"
  shows "query p s None w = Inr \<lparr>q_db = d, q_write = w, q_store = st, q_source = StoreSrc\<rparr>"
  using assms by (simp add: query_def)

lemma query_write:
  assumes "db p = Some d" and "map_of d s = Some st"
  shows "query p s idx True = Inr \<lparr>q_db = d, q_write = True, q_store = st, q_source = StoreSrc\<rparr>"
  using assms by (simp add: query_def)

lemma query_index:
  assumes "db p = Some d" and "map_of d s = Some st" and "map_of (indexes st) nm = Some kp"
    and "nm \<noteq> []"
  shows "query p s (Some nm) False =
    Inr \<lparr>q_db = d, q_write = False, q_store = st, q_source = IndexSrc nm\<rparr>"
  using assms by (simp add: query_def store_index_def)

lemma keys_ins_row: "set (map fst (ins_row k v rs)) = insert k (set (map fst rs))"
  by (induction rs) auto

lemma has_key_ins_row: "has_key k' (ins_row k v rs) = (k' = k \<or> has_key k' rs)"
  by (simp only: has_key_def keys_ins_row) auto

section \<open>The model against the repository's test page\<close>

text \<open>
  Every count and result that the test page asserts comes out of the model: 7 records
  after the writes, the rejected re-insert of \<^verbatim>\<open>a\<close> and the accepted overwrite, 6 and 4
  records after the deletions, 7 again, the record \<^verbatim>\<open>a\<close> by key and by the update index,
  7 records and 7 keys in all, 4 records from \<^verbatim>\<open>b\<close> to \<^verbatim>\<open>e\<close>, 3 records expiring within
  3 days, and the cursor over the expiry index visiting the names in descending order.
\<close>

lemma test_page_scenario:
  "fst (count page_h2 ''state'' None Undefined Undefined) = Resolved (Num 7)"
  "fst (add page_h2 ''state'' (page_record ''a'' 1 7)) = Rejected (Wrapped ConstraintError)"
  "fst (put page_h2 ''state'' (page_record ''a'' 1 7)) = Resolved Undefined"
  "fst (delete page_h3 ''state'' (Str ''a'')) = Resolved Undefined"
  "fst (count page_h3 ''state'' None Undefined Undefined) = Resolved (Num 6)"
  "fst (count page_h4 ''state'' None Undefined Undefined) = Resolved (Num 4)"
  "fst (count page_h5 ''state'' None Undefined Undefined) = Resolved (Num 7)"
  "fst (get page_h5 ''state'' None (Str ''a'')) = Resolved (page_record ''a'' 1 7)"
  "fst (get page_h5 ''state'' (Some ''updateIdx'') (Date 100)) = Resolved (page_record ''a'' 1 7)"
  "map_outcome array_length (fst (getAll page_h5 ''state'' None Undefined Undefined None))
     = Resolved (Num 7)"
  "map_outcome array_length (fst (getAll page_h5 ''state'' None (Str ''b'') (Str ''e'') None))
     = Resolved (Num 4)"
  "map_outcome array_length (fst (getAllKeys page_h5 ''state'' None Undefined Undefined None))
     = Resolved (Num 7)"
  "map_outcome array_length
     (fst (getAll page_h5 ''state'' (Some ''expireIdx'') Undefined (Date 103) None))
     = Resolved (Num 3)"
  "fst (getCursor page_h5 ''state'' (Some ''expireIdx'') Undefined Undefined None
          (Some (\<lambda>c. None)) (\<lambda>k. None)) = Resolved (Bool True)"
  "map (\<lambda>e. fst (snd e))
     (snd (getCursor page_h5 ''state'' (Some ''expireIdx'') Undefined Undefined None
             (Some (\<lambda>c. None)) (\<lambda>k. None)))
     = [Str ''g'', Str ''f'', Str ''e'', Str ''d'', Str ''c'', Str ''b'', Str ''a'']"
  by code_simp+

section \<open>Insert without overwrite is all-or-nothing\<close>

text \<open>
  A run of \<^verbatim>\<open>add\<close> requests fails with a \<^verbatim>\<open>ConstraintError\<close> as soon as one of their
  keys is in the store: either an earlier request fails, or the store has only grown when
  the duplicate is reached.
\<close>

lemma run_adds_duplicate:
  "\<exists>kv \<in> set kvs. has_key (fst kv) rs \<Longrightarrow>
   run_requests (map (\<lambda>kv. AddReq (fst kv) (snd kv)) kvs) rs = Inl ConstraintError"
proof (induction kvs arbitrary: rs)
  case Nil
  then show ?case by simp
next
  case (Cons kv kvs)
  show ?case
  proof (cases "has_key (fst kv) rs")
    case True
    then show ?thesis by simp
  next
    case False
    with Cons.prems have "\<exists>kv' \<in> set kvs. has_key (fst kv') (ins_row (fst kv) (snd kv) rs)"
      by (auto simp: has_key_ins_row)
    then have "run_requests (map (\<lambda>kv. AddReq (fst kv) (snd kv)) kvs)
        (ins_row (fst kv) (snd kv) rs) = Inl ConstraintError"
      by (rule Cons.IH)
    with False show ?thesis by simp
  qed
qed

lemma write_all_records:
  "\<forall>v \<in> set vs. extract_key (keyPath st) v \<noteq> None \<Longrightarrow>
   write_all st False vs =
     (map (\<lambda>kv. AddReq (fst kv) (snd kv))
        (map (\<lambda>v. (the (extract_key (keyPath st) v), v)) vs), None)"
  by (induction vs) (auto simp: store_add_def)

lemma update_duplicate:
  assumes "db p = Some d" and "map_of d s = Some st"
    and recs: "\<forall>v \<in> set vs. extract_key (keyPath st) v \<noteq> None"
    and dup: "\<exists>v \<in> set vs. \<exists>k. extract_key (keyPath st) v = Some k \<and> has_key k (rows st)"
  shows "update p s (Arr vs) False = (Rejected (Wrapped ConstraintError), p)"
proof -
  let ?kvs = "map (\<lambda>v. (the (extract_key (keyPath st) v), v)) vs"
  from dup have "\<exists>kv \<in> set ?kvs. has_key (fst kv) (rows st)"
    by force
  then have run: "run_requests (map (\<lambda>kv. AddReq (fst kv) (snd kv)) ?kvs) (rows st)
      = Inl ConstraintError"
    by (rule run_adds_duplicate)
  have q: "query p s None True =
      Inr \<lparr>q_db = d, q_write = True, q_store = st, q_source = StoreSrc\<rparr>"
    using assms(1,2) by (rule query_store)
  have same: "commit_rows p s
      \<lparr>q_db = d, q_write = True, q_store = st, q_source = StoreSrc\<rparr> (rows st) = p"
    using assms(1,2) by (simp add: commit_rows_same)
  show ?thesis
    by (simp add: update_def q write_all_records [OF recs] finish_transaction_def run same
        del: map_map)
qed

lemma record_is_object: "extract_key kp v \<noteq> None \<Longrightarrow> \<exists>fs. v = Obj fs"
  by (cases v) (simp_all add: extract_key_def)

lemma update_single: "update p s (Obj fs) ow = update p s (Arr [Obj fs]) ow"
  by (simp add: update_def split: sum.splits)

text \<open>
  Claim C1. On a connected handle with the named store, let every item of the batch be a
  record (it has a key at the store's key path) and let the key of at least one of them be
  in the store already. Then \<^verbatim>\<open>add\<close> rejects with the \<^verbatim>\<open>Error\<close> that wraps the engine's
  \<^verbatim>\<open>ConstraintError\<close>, and the handle, with every store and every row in it, is exactly
  what it was before the call: no record of the batch has been applied, so the record
  count is unchanged. The same holds when the single record is passed without an array.
\<close>

theorem add_duplicate_rejects_atomically:
  assumes "db p = Some d" and "map_of d store = Some st"
    and "\<forall>v \<in> set batch. extract_key (keyPath st) v \<noteq> None"
    and "\<exists>v \<in> set batch. \<exists>k. extract_key (keyPath st) v = Some k \<and> has_key k (rows st)"
  shows "add p store (Arr batch) = (Rejected (Wrapped ConstraintError), p) \<and>
         (\<forall>v. batch = [v] \<longrightarrow> add p store v = (Rejected (Wrapped ConstraintError), p))"
proof -
  have arr: "update p store (Arr batch) False = (Rejected (Wrapped ConstraintError), p)"
    using assms by (rule update_duplicate)
  have "add p store v = (Rejected (Wrapped ConstraintError), p)" if "batch = [v]" for v
  proof -
    from that assms(3) have "extract_key (keyPath st) v \<noteq> None" by simp
    then obtain fs where v: "v = Obj fs" using record_is_object by blast
    with arr that show ?thesis by (simp add: add_def update_single)
  qed
  with arr show ?thesis by (simp add: add_def)
qed

text \<open>The test page's case: \<^verbatim>\<open>a\<close> is in the store; adding \<^verbatim>\<open>c\<close> and \<^verbatim>\<open>a\<close> together
  is rejected and \<^verbatim>\<open>c\<close> is not stored.\<close>

theorem add_duplicate_rejects_atomically_witness:
  "add test_handle ''state'' (Arr [rec_c, rec_a]) = (Rejected (Wrapped ConstraintError), test_handle) \<and>
   has_key (Str ''a'') (rows state_store) \<and>
   extract_key (keyPath state_store) rec_a = Some (Str ''a'') \<and>
   extract_key (keyPath state_store) rec_c = Some (Str ''c'')"
  using add_duplicate_rejects_atomically
    [of test_handle "[(''state'', state_store)]" "''state''" state_store "[rec_c, rec_a]"]
  by (simp add: test_handle_def state_store_def rec_a_def rec_c_def rec_b_def
      extract_key_def has_key_def)

text \<open>
  The records of the hypothesis are needed. A value without a key makes \<^verbatim>\<open>store.add\<close>
  throw inside the loop; the promise is rejected with that \<^verbatim>\<open>DataError\<close>, \<^verbatim>\<open>commit()\<close>
  is not reached, and the engine completes the transaction with the requests placed before
  the exception: here \<^verbatim>\<open>c\<close> is stored although the call was rejected.
\<close>

lemma add_value_without_key_example:
  "fst (add test_handle ''state'' (Arr [rec_c, Num 3])) = Rejected (Dom DataError) \<and>
   fst (count (snd (add test_handle ''state'' (Arr [rec_c, Num 3]))) ''state'' None
          Undefined Undefined) = Resolved (Num 3)"
  by (simp add: add_def update_def query_def test_handle_def state_store_def store_add_def
      extract_key_def rec_a_def rec_b_def rec_c_def finish_transaction_def has_key_def
      commit_rows_def count_def bound_def exec_def engine_call_def opt_range_def select_def
      entries_def exec_settle_def)

section \<open>The empty batch\<close>

text \<open>
  Claim C10. On a connected handle with the named store, \<^verbatim>\<open>add\<close> and \<^verbatim>\<open>put\<close> with the
  item omitted (\<^verbatim>\<open>undefined\<close>, replaced by the default \<^verbatim>\<open>[]\<close>) or with an empty array
  place no write request, resolve with \<^verbatim>\<open>undefined\<close> when the transaction completes, and
  leave the handle and its stores as they were.
\<close>

theorem empty_batch_is_accepted:
  assumes "db p = Some d" and "map_of d store = Some st"
  shows "add p store Undefined = (Resolved Undefined, p) \<and>
         add p store (Arr []) = (Resolved Undefined, p) \<and>
         put p store Undefined = (Resolved Undefined, p) \<and>
         put p store (Arr []) = (Resolved Undefined, p) \<and>
         write_all st overwrite [] = ([], None)"
proof -
  have "update p store (Arr []) ow = (Resolved Undefined, p)" for ow
    using assms
    by (simp add: update_def query_store finish_transaction_def commit_rows_same)
  then show ?thesis by (simp add: add_def put_def)
qed

theorem empty_batch_is_accepted_witness:
  "add test_handle ''state'' Undefined = (Resolved Undefined, test_handle) \<and>
   put test_handle ''state'' (Arr []) = (Resolved Undefined, test_handle)"
  using empty_batch_is_accepted
    [of test_handle "[(''state'', state_store)]" "''state''" state_store]
  by (simp add: test_handle_def)

section \<open>Connection lifecycle\<close>

text \<open>
  Claim C6. \<^verbatim>\<open>connect\<close> never throws, never rejects and does not stay pending once the
  engine has answered: whatever the environment and the answer to the open request, the
  returned promise resolves, with \<^verbatim>\<open>true\<close> when the handshake succeeded and with
  \<^verbatim>\<open>false\<close> in every other case (no engine, a throwing \<^verbatim>\<open>open\<close>, an \<^verbatim>\<open>error\<close> event).
\<close>

theorem connect_always_resolves:
  "fst (connect p has_indexedDB ev) = Resolved (Bool (handshake_ok has_indexedDB ev))"
  by (cases ev)
    (simp_all add: connect_def dbConnect_def then_true_catch_false_def handshake_ok_def)

theorem connect_always_resolves_witness:
  "fst (connect closed_handle True (OpenSuccess [(''state'', state_store)])) = Resolved (Bool True) \<and>
   fst (connect closed_handle True (OpenError VersionError)) = Resolved (Bool False) \<and>
   fst (connect closed_handle True (OpenThrows TypeError)) = Resolved (Bool False) \<and>
   fst (connect closed_handle False (OpenSuccess [])) = Resolved (Bool False)"
  using connect_always_resolves [of closed_handle True "OpenSuccess [(''state'', state_store)]"]
    connect_always_resolves [of closed_handle True "OpenError VersionError"]
    connect_always_resolves [of closed_handle True "OpenThrows TypeError"]
    connect_always_resolves [of closed_handle False "OpenSuccess []"]
  by (simp add: handshake_ok_def)

text \<open>
  Claim C9, as amended. With a \<^verbatim>\<open>null\<close> connection handle \<^verbatim>\<open>close\<close> throws a
  \<^verbatim>\<open>TypeError\<close> synchronously. \<^verbatim>\<open>drop\<close> calls \<^verbatim>\<open>close\<close> unconditionally, but inside the
  executor of its promise: it does not throw, it returns a promise rejected with that
  \<^verbatim>\<open>TypeError\<close>, asks the engine for no deletion and leaves the handle as it was. With
  a handle that is not \<^verbatim>\<open>null\<close>, \<^verbatim>\<open>close\<close> does not throw and clears the handle.
\<close>

theorem close_requires_connection:
  "(db p = None \<longrightarrow>
      close p = Inl TypeError \<and> drop_db p ev = (Rejected (Dom TypeError), p, None)) \<and>
   (db p \<noteq> None \<longrightarrow> close p = Inr (p\<lparr>db := None\<rparr>))"
proof (cases "db p")
  case None
  then have "close p = Inl TypeError"
    by (simp add: close_def)
  then have "drop_db p ev = (Rejected (Dom TypeError), p, None)"
    by (simp add: drop_db_def)
  with None \<open>close p = Inl TypeError\<close> show ?thesis by simp
next
  case (Some d)
  then show ?thesis by (simp add: close_def)
qed

theorem close_requires_connection_witness:
  "close closed_handle = Inl TypeError \<and>
   drop_db closed_handle DeleteSuccess = (Rejected (Dom TypeError), closed_handle, None) \<and>
   close test_handle = Inr closed_handle"
  using close_requires_connection [of closed_handle DeleteSuccess]
    close_requires_connection [of test_handle DeleteSuccess]
  by (simp add: closed_handle_def test_handle_def)

text \<open>Against C9 as it was stated: on a closed handle \<^verbatim>\<open>drop\<close> does not throw
  synchronously.\<close>

theorem drop_does_not_throw_counterexample:
  "db closed_handle = None \<and> \<not> is_throw (fst (drop_db closed_handle DeleteSuccess))"
  by (simp add: closed_handle_def drop_db_def close_def is_throw_def)

text \<open>
  Claim C4, as amended. On a connected handle \<^verbatim>\<open>drop\<close> closes the connection and asks
  the engine to delete the database of the stored name; when the deletion succeeds it
  resolves with \<^verbatim>\<open>true\<close> and the stored name and version are \<^verbatim>\<open>null\<close>; when it fails
  it rejects with \<^verbatim>\<open>false\<close> and the stored name and version are kept; in both cases the
  handle is disconnected afterwards. On a handle that is not connected \<^verbatim>\<open>drop\<close> rejects
  with the \<^verbatim>\<open>TypeError\<close> of \<^verbatim>\<open>close\<close>, requests no deletion and changes nothing.
\<close>

theorem drop_closes_then_deletes:
  "(isConnected p \<longrightarrow>
      drop_db p DeleteSuccess =
        (Resolved (Bool True), p\<lparr>db := None, dbName := Null, dbVersion := Null\<rparr>, Some (name p)) \<and>
      drop_db p DeleteError = (Rejected (Plain (Bool False)), p\<lparr>db := None\<rparr>, Some (name p)) \<and>
      \<not> isConnected (fst (snd (drop_db p ev))) \<and>
      name (fst (snd (drop_db p DeleteSuccess))) = Null \<and>
      version (fst (snd (drop_db p DeleteSuccess))) = Null \<and>
      name (fst (snd (drop_db p DeleteError))) = name p \<and>
      version (fst (snd (drop_db p DeleteError))) = version p) \<and>
   (\<not> isConnected p \<longrightarrow> drop_db p ev = (Rejected (Dom TypeError), p, None))"
proof (cases "db p")
  case None
  then have "close p = Inl TypeError"
    by (simp add: close_def)
  with None show ?thesis
    by (simp add: isConnected_def drop_db_def)
next
  case (Some d)
  then have c: "close p = Inr (p\<lparr>db := None\<rparr>)"
    by (simp add: close_def)
  have "\<not> isConnected (fst (snd (drop_db p ev)))"
    by (cases ev) (simp_all add: drop_db_def c isConnected_def)
  with Some show ?thesis
    by (simp add: drop_db_def c isConnected_def name_def version_def)
qed

theorem drop_closes_then_deletes_witness:
  "isConnected test_handle \<and>
   drop_db test_handle DeleteSuccess =
     (Resolved (Bool True), \<lparr>db = None, dbName = Null, dbVersion = Null\<rparr>, Some (Str ''test'')) \<and>
   drop_db test_handle DeleteError = (Rejected (Plain (Bool False)), closed_handle, Some (Str ''test'')) \<and>
   \<not> isConnected closed_handle \<and>
   drop_db closed_handle DeleteError = (Rejected (Dom TypeError), closed_handle, None)"
  using drop_closes_then_deletes [of test_handle DeleteSuccess]
    drop_closes_then_deletes [of closed_handle DeleteError]
  by (simp add: isConnected_def name_def test_handle_def closed_handle_def)

text \<open>Against C4 as it was stated: on a closed handle, with an engine that would delete
  the database, \<^verbatim>\<open>drop\<close> does not resolve with \<^verbatim>\<open>true\<close>, keeps the name and requests no
  deletion; and when it fails it does not reject with \<^verbatim>\<open>false\<close>.\<close>

theorem drop_when_closed_counterexample:
  "\<not> isConnected closed_handle \<and>
   fst (drop_db closed_handle DeleteSuccess) = Rejected (Dom TypeError) \<and>
   fst (drop_db closed_handle DeleteSuccess) \<noteq> Resolved (Bool True) \<and>
   name (fst (snd (drop_db closed_handle DeleteSuccess))) \<noteq> Null \<and>
   snd (snd (drop_db closed_handle DeleteSuccess)) = None \<and>
   fst (drop_db closed_handle DeleteError) \<noteq> Rejected (Plain (Bool False))"
  by (simp add: isConnected_def name_def closed_handle_def drop_db_def close_def)

section \<open>Counting and listing keys\<close>

lemma bound_result:
  "bound lo hi = Inr b \<Longrightarrow> b = Undefined \<or> (\<exists>l h. b = KeyRange l h)"
  by (auto simp: bound_def IDBKeyRange_bound_def IDBKeyRange_lowerBound_def
      IDBKeyRange_upperBound_def split: if_splits)

lemma exec_count_keys:
  assumes "b = Undefined \<or> (\<exists>l h. b = KeyRange l h)"
  shows "fst (exec p store index MCount b) =
    map_outcome array_length (fst (exec p store index MGetAllKeys (Arr [b, Undefined])))"
  using assms
  by (auto simp: exec_def engine_call_def max_count_def limit_def map_outcome_def
      array_length_def exec_settle_def split: sum.splits)

text \<open>
  Claim C8. For every handle, store, optional index and optional bounds, what \<^verbatim>\<open>count\<close>
  does is what \<^verbatim>\<open>getAllKeys\<close> (called with the same store, index and bounds and no
  maximum count) does, with the array of keys replaced by its length: both throw the same
  exception, or both reject with the same error, or \<^verbatim>\<open>getAllKeys\<close> resolves with an
  array and \<^verbatim>\<open>count\<close> resolves with the length of that array.
\<close>

theorem getAllKeys_length_is_count:
  "fst (count p store index lowerBound upperBound) =
     map_outcome array_length (fst (getAllKeys p store index lowerBound upperBound None))"
proof (cases "bound lowerBound upperBound")
  case (Inl e)
  then show ?thesis
    by (simp add: count_def getAllKeys_def map_outcome_def)
next
  case (Inr b)
  then show ?thesis
    using exec_count_keys [OF bound_result [OF Inr]]
    by (simp add: count_def getAllKeys_def count_arg_def)
qed

theorem getAllKeys_length_is_count_witness:
  "fst (count test_handle ''state'' (Some ''expireIdx'') (Date 6) Undefined) = Resolved (Num 2) \<and>
   fst (getAllKeys test_handle ''state'' (Some ''expireIdx'') (Date 6) Undefined None) =
     Resolved (Arr [Str ''b'', Str ''a''])"
  using getAllKeys_length_is_count [of test_handle "''state''" "Some ''expireIdx''" "Date 6" Undefined]
  by (simp add: getAllKeys_def exec_def query_def test_handle_def state_store_def store_index_def
      engine_call_def opt_range_def as_range_def select_def entries_def index_entries_def
      extract_key_def entry_lt_def rec_a_def rec_b_def key_le_def exec_settle_def bound_def
      IDBKeyRange_lowerBound_def count_arg_def max_count_def limit_def map_outcome_def
      array_length_def)

text \<open>With a maximum count \<open>m\<close> from 1 to 4294967295 passed to \<^verbatim>\<open>getAllKeys\<close>, the
  array has \<open>min m n\<close> keys, where \<open>n\<close> is what \<^verbatim>\<open>count\<close> returns.\<close>

lemma getAllKeys_limited:
  assumes "fst (count p store index lowerBound upperBound) = Resolved (Num n)" and "0 < m"
    and "m \<le> unsigned_long_max"
  shows "\<exists>ks. fst (getAllKeys p store index lowerBound upperBound (Some m)) = Resolved (Arr ks)
           \<and> int (length ks) = min m n"
  using assms bound_result [of lowerBound upperBound]
  by (auto simp: count_def getAllKeys_def exec_def engine_call_def max_count_def limit_def
      count_arg_def exec_settle_def split: sum.splits)

section \<open>Index selection for reads and writes\<close>

lemma engine_call_read_rows:
  assumes "m \<in> {MCount, MGet, MGetAll, MGetAllKeys}" and "engine_call st src w m as = Inr (ev, rs)"
  shows "rs = rows st"
  using assms by (auto simp: engine_call_def split: sum.splits if_splits)

lemma exec_read_index:
  assumes "db p = Some d" and "map_of d store = Some st"
    and "nm \<noteq> []" and "map_of (indexes st) nm = Some kp"
    and "m \<in> {MCount, MGet, MGetAll, MGetAllKeys}"
  shows "exec p store (Some nm) m args =
    (case engine_call st (IndexSrc nm) False m (case args of Arr xs \<Rightarrow> xs | _ \<Rightarrow> [args]) of
       Inl e \<Rightarrow> (Rejected (Dom e), p)
     | Inr (ev, rs) \<Rightarrow> (exec_settle ev, p))"
proof -
  let ?as = "case args of Arr xs \<Rightarrow> xs | _ \<Rightarrow> [args]"
  have w: "(m = MDelete \<or> m = MClear) = False"
    using assms(5) by auto
  have q: "query p store (Some nm) False =
      Inr \<lparr>q_db = d, q_write = False, q_store = st, q_source = IndexSrc nm\<rparr>"
    using assms(1-4) by (simp add: query_index)
  have same: "commit_rows p store
      \<lparr>q_db = d, q_write = False, q_store = st, q_source = IndexSrc nm\<rparr> (rows st) = p"
    using assms(1,2) by (simp add: commit_rows_same)
  show ?thesis
  proof (cases "engine_call st (IndexSrc nm) False m ?as")
    case (Inl e)
    then show ?thesis by (simp add: exec_def w q)
  next
    case (Inr r)
    obtain ev rs where r: "r = (ev, rs)" by (cases r)
    with Inr have "rs = rows st"
      using engine_call_read_rows [OF assms(5)] by blast
    with Inr r show ?thesis by (simp add: exec_def w q same)
  qed
qed

lemma exec_write_ignores_index:
  assumes "m \<in> {MDelete, MClear}"
  shows "exec p store index m args = exec p store None m args"
proof -
  have w: "(m = MDelete \<or> m = MClear) = True"
    using assms by auto
  have "query p store index True = query p store None True"
    by (simp add: query_def split: option.splits)
  then show ?thesis by (simp add: exec_def w)
qed

lemma getCursor_index:
  assumes "db p = Some d" and "map_of d store = Some st"
    and "nm \<noteq> []" and "map_of (indexes st) nm = Some kp"
  shows "getCursor p store (Some nm) lo hi dir cb faults =
    (case bound lo hi of
       Inl e \<Rightarrow> (Rejected (Dom e), [])
     | Inr b \<Rightarrow>
        (case openCursor st (IndexSrc nm) b (case dir of None \<Rightarrow> ''next'' | Some d \<Rightarrow> d) of
           Inl e \<Rightarrow> (Rejected (Dom e), [])
         | Inr es \<Rightarrow> cursor_loop cb faults 0 es []))"
  using assms by (simp add: getCursor_def query_index split: sum.splits)

lemma bound_not_spread:
  assumes "bound lo hi = Inr b"
  shows "(case b of Arr xs \<Rightarrow> xs | _ \<Rightarrow> [b]) = [b]"
  using bound_result [OF assms] by auto

text \<open>
  What holds for every index name other than the empty string, on a connected handle whose
  store has an index of that name: each public read hands its request to that index, in a
  read-only transaction, and leaves the handle as it was.
\<close>

lemma reads_use_named_index:
  assumes "db p = Some d" and "map_of d store = Some st"
    and "nm \<noteq> []" and "map_of (indexes st) nm = Some kp"
  shows "count p store (Some nm) lo hi =
      (case bound lo hi of
         Inl e \<Rightarrow> (Throws e, p)
       | Inr b \<Rightarrow>
          (case engine_call st (IndexSrc nm) False MCount [b] of
             Inl e \<Rightarrow> (Rejected (Dom e), p)
           | Inr (ev, rs) \<Rightarrow> (exec_settle ev, p)))"
    and "get p store (Some nm) key =
      (case engine_call st (IndexSrc nm) False MGet (case key of Arr xs \<Rightarrow> xs | _ \<Rightarrow> [key]) of
         Inl e \<Rightarrow> (Rejected (Dom e), p)
       | Inr (ev, rs) \<Rightarrow> (exec_settle ev, p))"
    and "getAll p store (Some nm) lo hi cnt =
      (case bound lo hi of
         Inl e \<Rightarrow> (Throws e, p)
       | Inr b \<Rightarrow>
          (case engine_call st (IndexSrc nm) False MGetAll [b, count_arg cnt] of
             Inl e \<Rightarrow> (Rejected (Dom e), p)
           | Inr (ev, rs) \<Rightarrow> (exec_settle ev, p)))"
    and "getAllKeys p store (Some nm) lo hi cnt =
      (case bound lo hi of
         Inl e \<Rightarrow> (Throws e, p)
       | Inr b \<Rightarrow>
          (case engine_call st (IndexSrc nm) False MGetAllKeys [b, count_arg cnt] of
             Inl e \<Rightarrow> (Rejected (Dom e), p)
           | Inr (ev, rs) \<Rightarrow> (exec_settle ev, p)))"
    and "getCursor p store (Some nm) lo hi dir cb faults =
      (case bound lo hi of
         Inl e \<Rightarrow> (Rejected (Dom e), [])
       | Inr b \<Rightarrow>
          (case openCursor st (IndexSrc nm) b (case dir of None \<Rightarrow> ''next'' | Some d \<Rightarrow> d) of
             Inl e \<Rightarrow> (Rejected (Dom e), [])
           | Inr es \<Rightarrow> cursor_loop cb faults 0 es []))"
proof -
  note ex = exec_read_index [OF assms]
  show "count p store (Some nm) lo hi =
      (case bound lo hi of
         Inl e \<Rightarrow> (Throws e, p)
       | Inr b \<Rightarrow>
          (case engine_call st (IndexSrc nm) False MCount [b] of
             Inl e \<Rightarrow> (Rejected (Dom e), p)
           | Inr (ev, rs) \<Rightarrow> (exec_settle ev, p)))"
  proof (cases "bound lo hi")
    case (Inl e)
    then show ?thesis by (simp add: count_def)
  next
    case (Inr b)
    then show ?thesis
      using ex [of MCount b] bound_not_spread [OF Inr] by (simp add: count_def)
  qed
  show "get p store (Some nm) key =
      (case engine_call st (IndexSrc nm) False MGet (case key of Arr xs \<Rightarrow> xs | _ \<Rightarrow> [key]) of
         Inl e \<Rightarrow> (Rejected (Dom e), p)
       | Inr (ev, rs) \<Rightarrow> (exec_settle ev, p))"
    using ex [of MGet key] by (simp add: get_def)
  show "getAll p store (Some nm) lo hi cnt =
      (case bound lo hi of
         Inl e \<Rightarrow> (Throws e, p)
       | Inr b \<Rightarrow>
          (case engine_call st (IndexSrc nm) False MGetAll [b, count_arg cnt] of
             Inl e \<Rightarrow> (Rejected (Dom e), p)
           | Inr (ev, rs) \<Rightarrow> (exec_settle ev, p)))"
  proof (cases "bound lo hi")
    case (Inl e)
    then show ?thesis by (simp add: getAll_def)
  next
    case (Inr b)
    then show ?thesis
      using ex [of MGetAll "Arr [b, count_arg cnt]"] by (simp add: getAll_def)
  qed
  show "getAllKeys p store (Some nm) lo hi cnt =
      (case bound lo hi of
         Inl e \<Rightarrow> (Throws e, p)
       | Inr b \<Rightarrow>
          (case engine_call st (IndexSrc nm) False MGetAllKeys [b, count_arg cnt] of
             Inl e \<Rightarrow> (Rejected (Dom e), p)
           | Inr (ev, rs) \<Rightarrow> (exec_settle ev, p)))"
  proof (cases "bound lo hi")
    case (Inl e)
    then show ?thesis by (simp add: getAllKeys_def)
  next
    case (Inr b)
    then show ?thesis
      using ex [of MGetAllKeys "Arr [b, count_arg cnt]"] by (simp add: getAllKeys_def)
  qed
  show "getCursor p store (Some nm) lo hi dir cb faults =
      (case bound lo hi of
         Inl e \<Rightarrow> (Rejected (Dom e), [])
       | Inr b \<Rightarrow>
          (case openCursor st (IndexSrc nm) b (case dir of None \<Rightarrow> ''next'' | Some d \<Rightarrow> d) of
             Inl e \<Rightarrow> (Rejected (Dom e), [])
           | Inr es \<Rightarrow> cursor_loop cb faults 0 es []))"
    using assms by (rule getCursor_index)
qed

text \<open>What holds for every index argument: the writes do not look at it.\<close>

lemma writes_ignore_index:
  "deleteAll p store index lo hi = deleteAll p store None lo hi"
  "query p store index True = query p store None True"
proof -
  have "exec p store index MDelete a = exec p store None MDelete a" for a
    by (rule exec_write_ignores_index) simp
  then show "deleteAll p store index lo hi = deleteAll p store None lo hi"
    by (simp add: deleteAll_def split: sum.splits)
  show "query p store index True = query p store None True"
    by (simp add: query_def split: option.splits)
qed

text \<open>
  Claim C3, the code at the failing input. The store \<^verbatim>\<open>items\<close> has two indexes on the
  same key path \<^verbatim>\<open>tag\<close>: one named \<^verbatim>\<open>byTag\<close> and one whose name is the empty string,
  a name the engine allows. Both hold one entry, under the key 5. With the index name
  \<^verbatim>\<open>byTag\<close> the five reads are scoped to the index's keys, as the claim says: \<^verbatim>\<open>count\<close>
  gives 1, \<^verbatim>\<open>get\<close> the record, \<^verbatim>\<open>getAll\<close> and \<^verbatim>\<open>getAllKeys\<close> one element, and
  \<^verbatim>\<open>getCursor\<close> visits the entry. With the supplied index name \<^verbatim>\<open>''\<close> the guard
  \<^verbatim>\<open>indexName && !write\<close> of \<^verbatim>\<open>#query\<close> is false and the same five calls read the
  store's primary keys, where nothing lies under 5: \<^verbatim>\<open>count\<close> gives 0, \<^verbatim>\<open>get\<close> gives
  \<^verbatim>\<open>undefined\<close>, \<^verbatim>\<open>getAll\<close> and \<^verbatim>\<open>getAllKeys\<close> give an empty array and \<^verbatim>\<open>getCursor\<close>
  visits nothing. The write \<^verbatim>\<open>deleteAll\<close> ignores either index name.
\<close>

theorem empty_index_name_is_dropped:
  "map_of (indexes tag_store) ''byTag'' = Some ''tag'' \<and>
   map_of (indexes tag_store) [] = Some ''tag'' \<and>
   entries tag_store (IndexSrc []) = [(Num 5, Num 1, tag_record)] \<and>
   fst (count tag_handle ''items'' (Some ''byTag'') (Num 5) (Num 5)) = Resolved (Num 1) \<and>
   fst (get tag_handle ''items'' (Some ''byTag'') (Num 5)) = Resolved tag_record \<and>
   fst (getAll tag_handle ''items'' (Some ''byTag'') (Num 5) (Num 5) None) =
     Resolved (Arr [tag_record]) \<and>
   fst (getAllKeys tag_handle ''items'' (Some ''byTag'') (Num 5) (Num 5) None) =
     Resolved (Arr [Num 1]) \<and>
   getCursor tag_handle ''items'' (Some ''byTag'') (Num 5) (Num 5) None (Some (\<lambda>c. None))
       (\<lambda>k. None) = (Resolved (Bool True), [(Num 5, Num 1, tag_record)]) \<and>
   fst (count tag_handle ''items'' (Some []) (Num 5) (Num 5)) = Resolved (Num 0) \<and>
   fst (get tag_handle ''items'' (Some []) (Num 5)) = Resolved Undefined \<and>
   fst (getAll tag_handle ''items'' (Some []) (Num 5) (Num 5) None) = Resolved (Arr []) \<and>
   fst (getAllKeys tag_handle ''items'' (Some []) (Num 5) (Num 5) None) = Resolved (Arr []) \<and>
   getCursor tag_handle ''items'' (Some []) (Num 5) (Num 5) None (Some (\<lambda>c. None))
       (\<lambda>k. None) = (Resolved (Bool True), []) \<and>
   deleteAll tag_handle ''items'' (Some ''byTag'') (Num 5) (Num 5) =
     deleteAll tag_handle ''items'' None (Num 5) (Num 5) \<and>
   deleteAll tag_handle ''items'' (Some []) (Num 5) (Num 5) =
     deleteAll tag_handle ''items'' None (Num 5) (Num 5)"
  by (intro conjI) code_simp+

section \<open>Cursor traversal\<close>

lemma cursor_loop_fault:
  "faults step = Some e \<Longrightarrow> cursor_loop cb faults step es seen = (Rejected (Dom e), seen)"
  by (simp add: cursor_loop.simps cursor_onerror_def)

lemma cursor_loop_exhausted:
  "faults step = None \<Longrightarrow> cursor_loop cb faults step [] seen = (Resolved (Bool True), seen)"
  by (simp add: cursor_loop.simps cursor_onsuccess_def)

lemma advance_in_range: "0 < n \<Longrightarrow> n \<le> unsigned_long_max \<Longrightarrow> advance n = Inr (nat n)"
  by (simp add: advance_def)

lemma advance_one: "advance 1 = Inr 1"
  by (simp add: advance_def unsigned_long_max_def)

lemma cursor_loop_skip:
  assumes "faults step = None" and "f c = Some n" and "0 < n" and "n \<le> unsigned_long_max"
  shows "cursor_loop (Some f) faults step (c # cs) seen =
    cursor_loop (Some f) faults (Suc step) (drop (nat n) (c # cs)) (seen @ [c])"
  using assms
  by (subst cursor_loop.simps) (simp add: cursor_onsuccess_def advance_in_range callback_calls_def)

lemma cursor_loop_next:
  assumes "faults step = None" and "f c = None"
  shows "cursor_loop (Some f) faults step (c # cs) seen =
    cursor_loop (Some f) faults (Suc step) cs (seen @ [c])"
  using assms
  by (subst cursor_loop.simps) (simp add: cursor_onsuccess_def advance_one callback_calls_def)

lemma cursor_loop_no_callback:
  assumes "faults step = None"
  shows "cursor_loop None faults step (c # cs) seen = cursor_loop None faults (Suc step) cs seen"
  using assms
  by (subst cursor_loop.simps) (simp add: cursor_onsuccess_def advance_one callback_calls_def)

lemma cursor_onsuccess_in_range:
  assumes "\<And>f c n. cb = Some f \<Longrightarrow> f c = Some n \<Longrightarrow> 0 < n \<and> n \<le> unsigned_long_max"
    and "cursor_onsuccess cb cur = Advance n"
  shows "0 < n \<and> n \<le> unsigned_long_max"
proof (cases cur)
  case None
  with assms(2) show ?thesis by (simp add: cursor_onsuccess_def)
next
  case (Some c)
  show ?thesis
  proof (cases cb)
    case None
    with Some assms(2) show ?thesis
      by (auto simp: cursor_onsuccess_def unsigned_long_max_def)
  next
    case f: (Some f)
    show ?thesis
    proof (cases "f c")
      case None
      with Some f assms(2) show ?thesis
        by (auto simp: cursor_onsuccess_def unsigned_long_max_def)
    next
      case r: (Some m)
      with f assms(1) have "0 < m \<and> m \<le> unsigned_long_max" by blast
      with Some f r assms(2) show ?thesis
        by (auto simp: cursor_onsuccess_def split: if_splits)
    qed
  qed
qed

lemma cursor_loop_settles:
  assumes "\<forall>f c n. cb = Some f \<longrightarrow> f c = Some n \<longrightarrow> 0 < n \<and> n \<le> unsigned_long_max"
  shows "fst (cursor_loop cb faults step es seen) = Resolved (Bool True) \<or>
         (\<exists>k e. faults k = Some e \<and> fst (cursor_loop cb faults step es seen) = Rejected (Dom e))"
  using assms
proof (induction cb faults step es seen rule: cursor_loop.induct)
  case (1 callback faults step es seen)
  let ?cur = "case es of [] \<Rightarrow> None | c # cs \<Rightarrow> Some c"
  show ?case
  proof (cases "faults step")
    case (Some e)
    then show ?thesis by (auto simp: cursor_loop_fault)
  next
    case None
    show ?thesis
    proof (cases "cursor_onsuccess callback ?cur")
      case ResolveTrue
      with None show ?thesis by (simp add: cursor_loop.simps)
    next
      case (Advance n)
      from "1.prems" have
        "\<And>f c n. callback = Some f \<Longrightarrow> f c = Some n \<Longrightarrow> 0 < n \<and> n \<le> unsigned_long_max"
        by blast
      then have "0 < n \<and> n \<le> unsigned_long_max"
        using Advance by (rule cursor_onsuccess_in_range)
      then have adv: "advance n = Inr (nat n)" by (simp add: advance_in_range)
      have "cursor_loop callback faults step es seen =
          cursor_loop callback faults (Suc step) (drop (nat n) es)
            (seen @ callback_calls callback ?cur)"
        using None Advance adv by (subst cursor_loop.simps) simp
      moreover note "1.IH" [OF None Advance adv "1.prems"]
      ultimately show ?thesis by simp
    qed
  qed
qed

lemma getCursor_loop:
  assumes "query p store index False = Inr q" and "bound lo hi = Inr b"
    and "openCursor (q_store q) (q_source q) b (case dir of None \<Rightarrow> ''next'' | Some d \<Rightarrow> d) = Inr es"
  shows "getCursor p store index lo hi dir cb faults = cursor_loop cb faults 0 es []"
  using assms by (simp add: getCursor_def)

text \<open>
  Claim C5, as amended. At each step with a cursor the handler calls the callback, when
  there is one, with that cursor and then advances: by the positive number the callback
  returned when that number is at most 4294967295 (the largest count the engine's
  \<^verbatim>\<open>advance\<close> takes), by 1 when the callback returned nothing, by 1 when there is no
  callback. The handler resolves the promise with \<^verbatim>\<open>true\<close> exactly when the request's
  result is \<^verbatim>\<open>null\<close>, that is when the cursor is exhausted, and the error handler rejects
  it with the engine's error. For the traversal as a whole: a step at which the engine
  reports an error rejects with that error; a step with no entry left resolves with
  \<^verbatim>\<open>true\<close>; every other step continues with the entry that many places on; and with a
  callback that returns only such numbers or nothing the traversal always ends, resolved
  with \<^verbatim>\<open>true\<close> or rejected with an error the engine reported. \<^verbatim>\<open>getCursor\<close> is this
  traversal over the cursor the engine opened.
\<close>

theorem cursor_traversal:
  "(f c = Some n \<and> 0 < n \<and> n \<le> unsigned_long_max \<longrightarrow>
      cursor_onsuccess (Some f) (Some c) = Advance n \<and> advance n = Inr (nat n) \<and>
      callback_calls (Some f) (Some c) = [c]) \<and>
   (f c = None \<longrightarrow>
      cursor_onsuccess (Some f) (Some c) = Advance 1 \<and> callback_calls (Some f) (Some c) = [c]) \<and>
   cursor_onsuccess None (Some c) = Advance 1 \<and> advance 1 = Inr 1 \<and>
   (cursor_onsuccess cb cur = ResolveTrue) = (cur = None) \<and>
   cursor_onerror e = Rejected (Dom e) \<and>
   (faults step = Some e \<longrightarrow> cursor_loop cb faults step es seen = (Rejected (Dom e), seen)) \<and>
   (faults step = None \<longrightarrow> cursor_loop cb faults step [] seen = (Resolved (Bool True), seen)) \<and>
   (faults step = None \<and> f c = Some n \<and> 0 < n \<and> n \<le> unsigned_long_max \<longrightarrow>
      cursor_loop (Some f) faults step (c # cs) seen =
        cursor_loop (Some f) faults (Suc step) (drop (nat n) (c # cs)) (seen @ [c])) \<and>
   (faults step = None \<and> f c = None \<longrightarrow>
      cursor_loop (Some f) faults step (c # cs) seen =
        cursor_loop (Some f) faults (Suc step) cs (seen @ [c])) \<and>
   (faults step = None \<longrightarrow>
      cursor_loop None faults step (c # cs) seen = cursor_loop None faults (Suc step) cs seen) \<and>
   ((\<forall>g c' n'. cb = Some g \<longrightarrow> g c' = Some n' \<longrightarrow> 0 < n' \<and> n' \<le> unsigned_long_max) \<longrightarrow>
      fst (cursor_loop cb faults step es seen) = Resolved (Bool True) \<or>
      (\<exists>k e'. faults k = Some e' \<and> fst (cursor_loop cb faults step es seen) = Rejected (Dom e'))) \<and>
   (query p store index False = Inr q \<and> bound lo hi = Inr b \<and>
    openCursor (q_store q) (q_source q) b (case dir of None \<Rightarrow> ''next'' | Some d \<Rightarrow> d) = Inr es \<longrightarrow>
      getCursor p store index lo hi dir cb faults = cursor_loop cb faults 0 es [])"
proof (intro conjI impI)
  show "(cursor_onsuccess cb cur = ResolveTrue) = (cur = None)"
    by (cases cur) (simp_all add: cursor_onsuccess_def)
next
  assume "\<forall>g c' n'. cb = Some g \<longrightarrow> g c' = Some n' \<longrightarrow> 0 < n' \<and> n' \<le> unsigned_long_max"
  then show "fst (cursor_loop cb faults step es seen) = Resolved (Bool True) \<or>
      (\<exists>k e'. faults k = Some e' \<and> fst (cursor_loop cb faults step es seen) = Rejected (Dom e'))"
    by (rule cursor_loop_settles)
qed (simp_all add: cursor_onsuccess_def advance_in_range advance_one callback_calls_def
    cursor_onerror_def cursor_loop_fault cursor_loop_exhausted cursor_loop_skip cursor_loop_next
    cursor_loop_no_callback getCursor_loop)

theorem cursor_traversal_witness:
  "cursor_loop (Some (\<lambda>c. Some 2)) (\<lambda>k. None) 0
     [(Str ''a'', Str ''a'', rec_a), (Str ''b'', Str ''b'', rec_b)] [] =
     (Resolved (Bool True), [(Str ''a'', Str ''a'', rec_a)]) \<and>
   cursor_loop None (\<lambda>k. if k = 1 then Some UnknownError else None) 0
     [(Str ''a'', Str ''a'', rec_a), (Str ''b'', Str ''b'', rec_b)] [] =
     (Rejected (Dom UnknownError), [])"
proof -
  let ?a = "(Str ''a'', Str ''a'', rec_a)" and ?b = "(Str ''b'', Str ''b'', rec_b)"
  let ?flt = "\<lambda>k::nat. if k = 1 then Some UnknownError else None"
  have "cursor_loop (Some (\<lambda>c. Some 2)) (\<lambda>k. None) 0 [?a, ?b] [] =
      cursor_loop (Some (\<lambda>c. Some 2)) (\<lambda>k. None) (Suc 0) (drop (nat 2) [?a, ?b]) ([] @ [?a])"
    using cursor_traversal [where f = "\<lambda>c. Some 2" and c = ?a and n = 2 and faults = "\<lambda>k. None"
        and step = 0 and cs = "[?b]" and seen = "[]"]
    by (simp add: unsigned_long_max_def)
  also have "\<dots> = (Resolved (Bool True), [?a])"
    using cursor_traversal [where faults = "\<lambda>k. None" and step = "Suc 0" and seen = "[?a]"
        and cb = "Some (\<lambda>c. Some 2)"]
    by simp
  finally have one: "cursor_loop (Some (\<lambda>c. Some 2)) (\<lambda>k. None) 0 [?a, ?b] [] =
      (Resolved (Bool True), [?a])" .
  have "cursor_loop None ?flt 0 [?a, ?b] [] = cursor_loop None ?flt (Suc 0) [?b] []"
    using cursor_traversal [where faults = ?flt and step = 0 and c = ?a and cs = "[?b]"
        and seen = "[]"]
    by simp
  also have "\<dots> = (Rejected (Dom UnknownError), [])"
    using cursor_traversal [where faults = ?flt and step = "Suc 0" and e = UnknownError
        and cb = None and es = "[?b]" and seen = "[]"]
    by simp
  finally show ?thesis using one by simp
qed

text \<open>Against C5 as it was stated: 4294967296 is a positive integer, and when the
  callback returns it the handler does not advance by it. \<^verbatim>\<open>cursor.advance\<close> throws a
  \<^verbatim>\<open>TypeError\<close> inside the event handler, after the callback has been called once, and
  the promise of \<^verbatim>\<open>getCursor\<close> is never settled.\<close>

theorem cursor_advance_range_counterexample:
  "cursor_onsuccess (Some (\<lambda>c. Some 4294967296)) (Some (Str ''a'', Str ''a'', rec_a)) =
     Advance 4294967296 \<and>
   advance 4294967296 = Inl TypeError \<and>
   cursor_loop (Some (\<lambda>c. Some 4294967296)) (\<lambda>k. None) 0
     [(Str ''a'', Str ''a'', rec_a), (Str ''b'', Str ''b'', rec_b)] [] =
     (Pending, [(Str ''a'', Str ''a'', rec_a)]) \<and>
   fst (getCursor test_handle ''state'' None Undefined Undefined None
          (Some (\<lambda>c. Some 4294967296)) (\<lambda>k. None)) = Pending"
  by (intro conjI) code_simp+

section \<open>Falsy bounds and array keys\<close>

text \<open>What \<^verbatim>\<open>#bound\<close> does for truthy and falsy arguments, and that the five operations
  with bounds depend on them through \<^verbatim>\<open>#bound\<close> alone.\<close>

lemma bound_truthy:
  "truthy lo \<Longrightarrow> truthy hi \<Longrightarrow> bound lo hi = IDBKeyRange_bound lo hi"
  "truthy lo \<Longrightarrow> \<not> truthy hi \<Longrightarrow> bound lo hi = IDBKeyRange_lowerBound lo"
  "\<not> truthy lo \<Longrightarrow> truthy hi \<Longrightarrow> bound lo hi = IDBKeyRange_upperBound hi"
  "\<not> truthy lo \<Longrightarrow> \<not> truthy hi \<Longrightarrow> bound lo hi = Inr Undefined"
  by (simp_all add: bound_def)

lemma bound_shared:
  assumes "bound lo hi = bound lo' hi'"
  shows "count p s i lo hi = count p s i lo' hi'"
    and "getAll p s i lo hi c = getAll p s i lo' hi' c"
    and "getAllKeys p s i lo hi c = getAllKeys p s i lo' hi' c"
    and "deleteAll p s i lo hi = deleteAll p s i lo' hi'"
    and "getCursor p s i lo hi dir cb faults = getCursor p s i lo' hi' dir cb faults"
  using assms
  by (simp_all add: count_def getAll_def getAllKeys_def deleteAll_def getCursor_def
      cong: sum.case_cong)

text \<open>
  Claim C2, the code at the failing input. The numbers 0 and the empty string are keys,
  and \<^verbatim>\<open>#bound\<close> treats them as absent: with the lower bound 0 and the upper bound 5 it
  builds the range "at most 5" where \<^verbatim>\<open>IDBKeyRange.bound(0, 5)\<close> is the range from 0 to
  5; with only the lower bound 0, or only the upper bound \<^verbatim>\<open>''\<close>, it builds no range at
  all. So \<^verbatim>\<open>count\<close> with the bounds 0 and 5 on the store with the keys -1 and 3 answers
  2, though one key lies between 0 and 5.
\<close>

theorem bound_drops_falsy_keys:
  "valid_key (Num 0) \<and> valid_key (Str []) \<and>
   bound (Num 0) (Num 5) = Inr (KeyRange None (Some (Num 5))) \<and>
   IDBKeyRange_bound (Num 0) (Num 5) = Inr (KeyRange (Some (Num 0)) (Some (Num 5))) \<and>
   bound (Num 0) Undefined = Inr Undefined \<and>
   bound Undefined (Str []) = Inr Undefined \<and>
   fst (count num_handle ''numbers'' None (Num 0) (Num 5)) = Resolved (Num 2) \<and>
   length (select (Some (Num 0), Some (Num 5)) (entries num_store StoreSrc)) = 1"
  by (simp add: bound_def IDBKeyRange_bound_def IDBKeyRange_upperBound_def count_def exec_def
      query_def num_handle_def num_store_def engine_call_def opt_range_def as_range_def
      select_def entries_def key_le_def exec_settle_def)

text \<open>The key order is total on keys, so the range of a single key holds that key only.\<close>

lemma str_lt_trichotomy: "\<not> str_lt a b \<Longrightarrow> \<not> str_lt b a \<Longrightarrow> a = b"
  by (induction a b rule: str_lt.induct) (auto simp: not_less)

lemma key_lt_trichotomy:
  "(valid_key a \<longrightarrow> valid_key b \<longrightarrow> \<not> key_lt a b \<longrightarrow> \<not> key_lt b a \<longrightarrow> a = b)"
  "(valid_keys xs \<longrightarrow> valid_keys ys \<longrightarrow> \<not> keys_lt xs ys \<longrightarrow> \<not> keys_lt ys xs \<longrightarrow> xs = ys)"
  by (induction a b and xs ys rule: key_lt_keys_lt.induct) (auto dest: str_lt_trichotomy)

lemma in_range_single:
  assumes "valid_key k" and "valid_key k'" and "in_range (Some k, Some k) k'"
  shows "k' = k"
  using assms key_lt_trichotomy(1) [of k k']
  by (auto simp: key_le_def)

lemma filter_absent:
  assumes "valid_key k" and "\<forall>r \<in> set rs. valid_key (fst r)" and "\<not> has_key k rs"
  shows "filter (\<lambda>e. in_range (Some k, Some k) (fst e)) (map (\<lambda>r. (fst r, fst r, snd r)) rs) = []"
proof -
  have "\<not> in_range (Some k, Some k) (fst r)" if "r \<in> set rs" for r
  proof
    assume "in_range (Some k, Some k) (fst r)"
    with assms(1,2) that have "fst r = k"
      using in_range_single by blast
    with that assms(3) show False
      by (auto simp: has_key_def)
  qed
  then show ?thesis
    by (simp add: filter_empty_conv del: in_range.simps)
qed

lemma select_absent:
  assumes "valid_key k" and "\<forall>r \<in> set (rows st). valid_key (fst r)" and "\<not> has_key k (rows st)"
  shows "select (Some k, Some k) (entries st StoreSrc) = []"
  unfolding select_def entries_def source.case
  using assms by (rule filter_absent)

lemma as_range_key:
  assumes "valid_key k"
  shows "as_range k = Inr (Some k, Some k)"
  using assms by (cases k) (simp_all add: as_range_def)

lemma get_absent:
  assumes "db p = Some d" and "map_of d store = Some st"
    and "valid_key key" and "\<forall>xs. key \<noteq> Arr xs"
    and "\<forall>r \<in> set (rows st). valid_key (fst r)" and "\<not> has_key key (rows st)"
  shows "get p store None key = (Resolved Undefined, p)"
proof -
  have args: "(case key of Arr xs \<Rightarrow> xs | _ \<Rightarrow> [key]) = [key]"
    using assms(4) by (cases key) simp_all
  have q: "query p store None False =
      Inr \<lparr>q_db = d, q_write = False, q_store = st, q_source = StoreSrc\<rparr>"
    using assms(1,2) by (rule query_store)
  have same: "commit_rows p store
      \<lparr>q_db = d, q_write = False, q_store = st, q_source = StoreSrc\<rparr> (rows st) = p"
    using assms(1,2) by (simp add: commit_rows_same)
  have "engine_call st StoreSrc False MGet [key] = Inr (ReqSuccess Undefined, rows st)"
    using assms(3,5,6)
    by (simp add: engine_call_def as_range_key select_absent)
  then show ?thesis
    by (simp add: get_def exec_def args q same exec_settle_def)
qed

lemma delete_resolves:
  assumes "db p = Some d" and "map_of d store = Some st" and "valid_key key"
  shows "fst (delete p store key) = Resolved Undefined"
  using assms
  by (simp add: delete_def exec_def query_store engine_call_def as_range_key exec_settle_def)

text \<open>
  Claim C7, the code at the failing input. \<^verbatim>\<open>get\<close> hands its key to \<^verbatim>\<open>#exec\<close> as it
  is, and \<^verbatim>\<open>#exec\<close> spreads an array into the argument list; \<^verbatim>\<open>delete\<close> wraps its key
  in an array first. An array is a key. With the key \<^verbatim>\<open>[]\<close>, which no record has,
  \<^verbatim>\<open>get\<close> calls the engine's \<^verbatim>\<open>get\<close> without an argument and the promise is rejected
  with a \<^verbatim>\<open>TypeError\<close>; with the key \<^verbatim>\<open>['a', 'b']\<close>, which no record has, it looks
  up \<^verbatim>\<open>'a'\<close> and resolves with that record instead of \<^verbatim>\<open>undefined\<close>. \<^verbatim>\<open>delete\<close>
  resolves for both keys. (For a key that is not an array, \<open>get_absent\<close> and
  \<open>delete_resolves\<close> above show what the claim says.)
\<close>

theorem get_unwraps_array_keys:
  "valid_key (Arr []) \<and> valid_key (Arr [Str ''a'', Str ''b'']) \<and>
   \<not> has_key (Arr []) (rows state_store) \<and>
   \<not> has_key (Arr [Str ''a'', Str ''b'']) (rows state_store) \<and>
   fst (get test_handle ''state'' None (Arr [])) = Rejected (Dom TypeError) \<and>
   fst (get test_handle ''state'' None (Arr [Str ''a'', Str ''b''])) = Resolved rec_a \<and>
   fst (delete test_handle ''state'' (Arr [])) = Resolved Undefined \<and>
   fst (delete test_handle ''state'' (Arr [Str ''a'', Str ''b''])) = Resolved Undefined"
  by (simp add: get_def delete_def exec_def query_def test_handle_def state_store_def
      engine_call_def as_range_def select_def entries_def key_le_def exec_settle_def has_key_def)

end
